theory Spec2Isabelle
  imports Complex_Main "HOL-Library.Multiset" "HOL-Library.Sublist"
begin

section \<open>Values of the host language\<close>

text \<open>
  The dashboards are Python programs over pandas tables. Text is modelled as
  \<^typ>\<open>string\<close> and is meant to be ASCII: the case functions and the classes of
  letters and digits take a character above 127 for one without case that is neither
  a letter nor a digit. Whitespace and \<open>int\<close> follow Python on every character below
  256, read as the code point of its number, so that NEL (133) and the no-break space
  (160) are whitespace. A float is a rational number or NaN (\<open>None\<close>);
  infinities are not modelled. Comparison with NaN is false, as in IEEE arithmetic, and
  pandas stores a missing number as NaN. Comparing two floats, and taking the least or
  the greatest of some, involves no rounding, so these are exact on rationals.
\<close>

type_synonym float = "rat option"

definition fle :: "float \<Rightarrow> float \<Rightarrow> bool" where
  "fle a b = (case a of None \<Rightarrow> False | Some x \<Rightarrow> (case b of None \<Rightarrow> False | Some y \<Rightarrow> x \<le> y))"

definition fge :: "float \<Rightarrow> float \<Rightarrow> bool" where
  "fge a b = fle b a"

definition code :: "char \<Rightarrow> nat" where
  "code c = of_char c"

definition is_space :: "char \<Rightarrow> bool" where
  \<comment> \<open>\<open>str.isspace\<close>: tab, LF, VT, FF, CR, FS, GS, RS, US, the blank, NEL and the
      no-break space; \<open>str.strip\<close> removes these and \<open>\s\<close> matches them\<close>
  "is_space c = ((9 \<le> code c \<and> code c \<le> 13) \<or> (28 \<le> code c \<and> code c \<le> 32)
                 \<or> code c = 133 \<or> code c = 160)"

definition is_digit :: "char \<Rightarrow> bool" where
  "is_digit c = (48 \<le> code c \<and> code c \<le> 57)"

definition is_upper :: "char \<Rightarrow> bool" where
  "is_upper c = (65 \<le> code c \<and> code c \<le> 90)"

definition is_lower :: "char \<Rightarrow> bool" where
  "is_lower c = (97 \<le> code c \<and> code c \<le> 122)"

definition upper_char :: "char \<Rightarrow> char" where
  "upper_char c = (if is_lower c then char_of (code c - 32) else c)"

definition lower_char :: "char \<Rightarrow> char" where
  "lower_char c = (if is_upper c then char_of (code c + 32) else c)"

definition upper :: "string \<Rightarrow> string" where
  \<comment> \<open>\<open>str.upper\<close>\<close>
  "upper s = map upper_char s"

definition lower :: "string \<Rightarrow> string" where
  \<comment> \<open>\<open>str.lower\<close>\<close>
  "lower s = map lower_char s"

definition strip :: "string \<Rightarrow> string" where
  \<comment> \<open>\<open>str.strip\<close> with no argument: whitespace goes from both ends.\<close>
  "strip s = rev (dropWhile is_space (rev (dropWhile is_space s)))"

subsection \<open>\<open>int(text)\<close>\<close>

text \<open>
  Python's \<open>int\<close> on a string skips whitespace at both ends, reads an optional sign and
  then decimal digits, in which single underscores may stand between two digits.
  Anything else raises \<open>ValueError\<close>, here \<open>None\<close>. The whitespace \<open>int\<close> skips is
  not that of \<open>str.strip\<close>: the separators FS, GS, RS and US (28 to 31) are not
  skipped, so a text that starts or ends with one is refused. A text with more than
  4300 digits is refused as well (\<open>sys.int_info.default_max_str_digits\<close>, CPython 3.11
  and the patched earlier releases); underscores, the sign and the whitespace do not
  count.
\<close>

definition is_int_space :: "char \<Rightarrow> bool" where
  \<comment> \<open>tab, LF, VT, FF, CR and the blank; NEL and the no-break space, which \<open>int\<close> turns
      into blanks first\<close>
  "is_int_space c = ((9 \<le> code c \<and> code c \<le> 13) \<or> code c = 32 \<or> code c = 133 \<or> code c = 160)"

definition int_strip :: "string \<Rightarrow> string" where
  "int_strip s = rev (dropWhile is_int_space (rev (dropWhile is_int_space s)))"

definition max_str_digits :: nat where
  "max_str_digits = 4300"

fun digits_acc :: "nat \<Rightarrow> string \<Rightarrow> nat option" where
  "digits_acc n [] = Some n"
| "digits_acc n (c # cs) =
     (if is_digit c then digits_acc (10 * n + (code c - 48)) cs
      else if c = CHR ''_'' \<and> (case cs of [] \<Rightarrow> False | d # _ \<Rightarrow> is_digit d)
        then digits_acc n cs
      else None)"

definition py_digits :: "string \<Rightarrow> nat option" where
  "py_digits s =
     (case s of
        [] \<Rightarrow> None
      | c # _ \<Rightarrow>
          if is_digit c \<and> length (filter is_digit s) \<le> max_str_digits
          then digits_acc 0 s else None)"

definition py_int :: "string \<Rightarrow> int option" where
  "py_int s =
     (case int_strip s of
        [] \<Rightarrow> None
      | c # r \<Rightarrow>
          if c = CHR ''-'' then map_option (\<lambda>n. - int n) (py_digits r)
          else if c = CHR ''+'' then map_option int (py_digits r)
          else map_option int (py_digits (c # r)))"

subsection \<open>\<open>str(number)\<close>\<close>

fun digits_of :: "nat \<Rightarrow> string" where
  "digits_of n = (if n < 10 then [char_of (48 + n)] else digits_of (n div 10) @ [char_of (48 + n mod 10)])"

declare digits_of.simps [simp del]

definition str_int :: "int \<Rightarrow> string" where
  "str_int i = (if i < 0 then CHR ''-'' # digits_of (nat (- i)) else digits_of (nat i))"

section \<open>The table\<close>

text \<open>
  A record of the table carries the columns that the filter pipeline and the two
  aggregations read. A missing cell is \<open>None\<close> (pandas: NaN, NaT or \<open><NA>\<close>).
  \<open>Date\<close> holds the timestamp that \<open>load_data\<close> parsed, \<open>Year\<close> the nullable integer
  it derived. An identifier is an integer or a text, whichever the file held.
\<close>

datatype ident = IntId int | StrId string

record row =
  news_id :: ident
  Date :: "int option"
  Year :: "int option"
  Stock_symbol :: "string option"
  Article_title :: "string option"
  sentiment_label :: "string option"
  sentiment_score_signed :: float

text \<open>
  A DataFrame: the names of its columns, whether the \<open>Date\<close> column has the datetime
  type (what \<open>pd.api.types.is_datetime64_any_dtype\<close> answers), and its rows.
\<close>

record frame =
  columns :: "string list"
  date_is_datetime :: bool
  rows :: "row list"

definition has_col :: "string \<Rightarrow> frame \<Rightarrow> bool" where
  \<comment> \<open>\<open>name in df.columns\<close>\<close>
  "has_col c df = (c \<in> set (columns df))"

definition empty :: "frame \<Rightarrow> bool" where
  \<comment> \<open>\<open>df.empty\<close>: an axis of length zero.\<close>
  "empty df = (rows df = [] \<or> columns df = [])"

definition select :: "(row \<Rightarrow> bool) \<Rightarrow> frame \<Rightarrow> frame" where
  \<comment> \<open>\<open>df[mask]\<close>, boolean indexing: a new frame with the rows where the mask holds.\<close>
  "select p df = df\<lparr>rows := filter p (rows df)\<rparr>"

definition head :: "nat \<Rightarrow> frame \<Rightarrow> frame" where
  "head n df = df\<lparr>rows := take n (rows df)\<rparr>"

subsection \<open>\<open>sort_values("Date", ascending=False)\<close>\<close>

text \<open>
  Descending by date with the missing dates last (pandas' \<open>na_position\<close> default). The
  model keeps rows of equal date in their input order; pandas' default sort kind does
  not promise an order among ties, and no statement below depends on one.
\<close>

definition date_gt :: "row \<Rightarrow> row \<Rightarrow> bool" where
  "date_gt a b = (case Date a of None \<Rightarrow> False
                  | Some x \<Rightarrow> (case Date b of None \<Rightarrow> True | Some y \<Rightarrow> y < x))"

definition date_ge :: "row \<Rightarrow> row \<Rightarrow> bool" where
  "date_ge a b = (\<not> date_gt b a)"

fun insert_desc :: "row \<Rightarrow> row list \<Rightarrow> row list" where
  "insert_desc r [] = [r]"
| "insert_desc r (x # xs) = (if date_gt x r then x # insert_desc r xs else r # x # xs)"

definition sort_desc :: "row list \<Rightarrow> row list" where
  "sort_desc rs = foldr insert_desc rs []"

definition sort_values_Date_desc :: "frame \<Rightarrow> frame" where
  "sort_values_Date_desc df = df\<lparr>rows := sort_desc (rows df)\<rparr>"

section \<open>\<open>Series.str.contains(keyword, case=False, na=False)\<close>\<close>

text \<open>
  pandas reads the keyword as a regular expression (\<open>regex=True\<close> is the default),
  compiles it with \<open>re.IGNORECASE\<close> before it looks at any row, and keeps a title in
  which \<open>search\<close> finds a match. The model reads the part of the pattern language made
  of ordinary characters, the dot, the class escapes \<open>\d \D \s \S \w \W\<close> and an escaped
  punctuation character. On any other pattern (a repetition, a group, an alternative,
  a set, an anchor, another escape) \<open>parse_pattern\<close> answers \<open>None\<close>: there the source
  either raises \<open>re.error\<close> or matches by rules that are not modelled.
\<close>

datatype atom = Lit char | AnyChar | Digit bool | Space bool | Word bool

definition backslash :: char where
  "backslash = char_of (92::nat)"

definition is_meta :: "char \<Rightarrow> bool" where
  "is_meta c = (c \<in> set ''.^$*+?{}[]|()'' \<or> c = backslash)"

definition is_alnum :: "char \<Rightarrow> bool" where
  "is_alnum c = (is_digit c \<or> is_upper c \<or> is_lower c)"

definition escape :: "char \<Rightarrow> atom option" where
  "escape e =
     (if e = CHR ''d'' then Some (Digit True) else if e = CHR ''D'' then Some (Digit False)
      else if e = CHR ''s'' then Some (Space True) else if e = CHR ''S'' then Some (Space False)
      else if e = CHR ''w'' then Some (Word True) else if e = CHR ''W'' then Some (Word False)
      else if is_alnum e \<or> 128 \<le> code e then None
      else Some (Lit e))"

fun parse_pattern :: "string \<Rightarrow> atom list option" where
  "parse_pattern [] = Some []"
| "parse_pattern [c] =
     (if c = CHR ''.'' then Some [AnyChar] else if is_meta c then None else Some [Lit c])"
| "parse_pattern (c # e # es) =
     (if c = backslash then
        (case escape e of None \<Rightarrow> None | Some a \<Rightarrow> map_option ((#) a) (parse_pattern es))
      else if c = CHR ''.'' then map_option ((#) AnyChar) (parse_pattern (e # es))
      else if is_meta c then None
      else map_option ((#) (Lit c)) (parse_pattern (e # es)))"

fun atom_matches :: "atom \<Rightarrow> char \<Rightarrow> bool" where
  "atom_matches (Lit c) x = (lower_char x = lower_char c)"
| "atom_matches AnyChar x = (code x \<noteq> 10)"
| "atom_matches (Digit b) x = (is_digit x = b)"
| "atom_matches (Space b) x = (is_space x = b)"
| "atom_matches (Word b) x = ((is_alnum x \<or> x = CHR ''_'') = b)"

fun match_here :: "atom list \<Rightarrow> string \<Rightarrow> bool" where
  "match_here [] s = True"
| "match_here (a # as) [] = False"
| "match_here (a # as) (x # xs) = (atom_matches a x \<and> match_here as xs)"

fun search :: "atom list \<Rightarrow> string \<Rightarrow> bool" where
  "search p [] = match_here p []"
| "search p (x # xs) = (match_here p (x # xs) \<or> search p xs)"

definition title_contains :: "atom list \<Rightarrow> row \<Rightarrow> bool" where
  \<comment> \<open>one cell of the mask; \<open>na=False\<close> makes a missing title \<open>False\<close>\<close>
  "title_contains p r = (case Article_title r of None \<Rightarrow> False | Some t \<Rightarrow> search p t)"

section \<open>What a request can raise\<close>

datatype failure =
    KeyError string
  | TypeError
  | IndexError
  | PatternNotModelled

section \<open>\<open>flask/app.py\<close>\<close>

subsection \<open>Module state\<close>

definition column_min :: "frame \<Rightarrow> float" where
  \<comment> \<open>\<open>float(DF["sentiment_score_signed"].min())\<close>: NaN cells are skipped; NaN if none is left.\<close>
  "column_min df =
     (case List.map_filter sentiment_score_signed (rows df) of
        [] \<Rightarrow> None | x # xs \<Rightarrow> Some (fold min xs x))"

definition column_max :: "frame \<Rightarrow> float" where
  "column_max df =
     (case List.map_filter sentiment_score_signed (rows df) of
        [] \<Rightarrow> None | x # xs \<Rightarrow> Some (fold max xs x))"

definition MIN_SCORE :: "frame \<Rightarrow> float option" where
  \<comment> \<open>Python's \<open>None\<close> when the column is absent.\<close>
  "MIN_SCORE DF = (if has_col ''sentiment_score_signed'' DF then Some (column_min DF) else None)"

definition MAX_SCORE :: "frame \<Rightarrow> float option" where
  "MAX_SCORE DF = (if has_col ''sentiment_score_signed'' DF then Some (column_max DF) else None)"

subsection \<open>Query parameters\<close>

text \<open>
  A text parameter is \<open>None\<close> when the query string does not carry it. For \<open>sent_min\<close> and
  \<open>sent_max\<close> the record holds what \<open>float(text)\<close> makes of the parameter.
\<close>

datatype float_arg = Missing | Malformed | Parsed float

record request =
  arg_year :: "string option"
  arg_symbol :: "string option"
  arg_keyword :: "string option"
  arg_news_id :: "string option"
  arg_sent_min :: float_arg
  arg_sent_max :: float_arg

definition args_get :: "string option \<Rightarrow> string \<Rightarrow> string" where
  \<comment> \<open>\<open>request.args.get(name, default)\<close>\<close>
  "args_get a d = (case a of None \<Rightarrow> d | Some v \<Rightarrow> v)"

definition float_of_arg :: "float_arg \<Rightarrow> float option \<Rightarrow> float option" where
  \<comment> \<open>\<open>float(request.args.get(name, default))\<close>; \<open>None\<close> when it raises (\<open>float(None)\<close> does).\<close>
  "float_of_arg a d = (case a of Missing \<Rightarrow> d | Malformed \<Rightarrow> None | Parsed v \<Rightarrow> Some v)"

definition sent_range :: "frame \<Rightarrow> request \<Rightarrow> float option \<times> float option" where
  \<comment> \<open>the \<open>try\<close> around both conversions: one failure resets both bounds\<close>
  "sent_range DF rq =
     (case float_of_arg (arg_sent_min rq) (MIN_SCORE DF) of
        None \<Rightarrow> (MIN_SCORE DF, MAX_SCORE DF)
      | Some lo \<Rightarrow>
          (case float_of_arg (arg_sent_max rq) (MAX_SCORE DF) of
             None \<Rightarrow> (MIN_SCORE DF, MAX_SCORE DF)
           | Some hi \<Rightarrow> (Some lo, Some hi)))"

definition blank_is_all :: "string \<Rightarrow> string" where
  "blank_is_all s = (if s = [] then ''all'' else s)"

subsection \<open>The filter steps of \<open>index\<close>\<close>

definition year_filter :: "string \<Rightarrow> frame \<Rightarrow> frame" where
  "year_filter selected_year filtered =
     (if selected_year \<noteq> ''all'' \<and> has_col ''Year'' filtered then
        (case py_int selected_year of
           Some y \<Rightarrow> select (\<lambda>r. Year r = Some y) filtered
         | None \<Rightarrow> filtered)
      else filtered)"

definition symbol_filter :: "string \<Rightarrow> frame \<Rightarrow> frame" where
  "symbol_filter selected_symbol filtered =
     (if selected_symbol \<noteq> ''all'' \<and> has_col ''Stock_symbol'' filtered
      then select (\<lambda>r. Stock_symbol r = Some selected_symbol) filtered
      else filtered)"

definition in_range :: "float \<Rightarrow> float \<Rightarrow> row \<Rightarrow> bool" where
  "in_range lo hi r = (fge (sentiment_score_signed r) lo \<and> fle (sentiment_score_signed r) hi)"

definition sentiment_filter :: "frame \<Rightarrow> float option \<Rightarrow> float option \<Rightarrow> frame \<Rightarrow> failure + frame" where
  "sentiment_filter DF sent_min sent_max filtered =
     (if MIN_SCORE DF \<noteq> None then
        (case (sent_min, sent_max) of
           (Some lo, Some hi) \<Rightarrow> Inr (select (in_range lo hi) filtered)
         | _ \<Rightarrow> Inl TypeError)
      else Inr filtered)"

definition keyword_filter :: "string \<Rightarrow> frame \<Rightarrow> failure + frame" where
  "keyword_filter keyword filtered =
     (if keyword \<noteq> [] \<and> has_col ''Article_title'' filtered then
        (case parse_pattern keyword of
           None \<Rightarrow> Inl PatternNotModelled
         | Some p \<Rightarrow> Inr (select (title_contains p) filtered))
      else Inr filtered)"

definition date_sort :: "frame \<Rightarrow> frame" where
  "date_sort filtered =
     (if has_col ''Date'' filtered \<and> date_is_datetime filtered
      then sort_values_Date_desc filtered else filtered)"

definition copy :: "frame \<Rightarrow> frame" where
  \<comment> \<open>\<open>DF.copy()\<close>: a frame of its own with the same content\<close>
  "copy df = df"

definition filtered :: "frame \<Rightarrow> request \<Rightarrow> failure + frame" where
  \<comment> \<open>the variable \<open>filtered\<close> of \<open>index\<close> after the sort\<close>
  "filtered DF rq =
     (let selected_year = blank_is_all (args_get (arg_year rq) ''all'');
          selected_symbol = blank_is_all (args_get (arg_symbol rq) ''all'');
          keyword = strip (args_get (arg_keyword rq) []);
          (sent_min, sent_max) = sent_range DF rq;
          f0 = copy DF;
          f1 = year_filter selected_year f0;
          f2 = symbol_filter selected_symbol f1
      in case sentiment_filter DF sent_min sent_max f2 of
           Inl e \<Rightarrow> Inl e
         | Inr f3 \<Rightarrow>
             (case keyword_filter keyword f3 of
                Inl e \<Rightarrow> Inl e
              | Inr f4 \<Rightarrow> Inr (date_sort f4)))"

subsection \<open>Aggregations\<close>

text \<open>
  The source computes means, percentages and roundings in binary floating point,
  through pandas, numpy and Python's formatter. What they give to the last digit
  depends on how those libraries accumulate a sum and round a decimal, which the source
  does not fix. The model therefore does not compute them: the functions below take
  the floating-point operations as a parameter \<open>fo\<close> and say which operation is applied
  to which values, in which order.
\<close>

record float_ops =
  fp_mean :: "rat list \<Rightarrow> float"
    \<comment> \<open>the mean pandas computes of the numbers of one group, in the order of the rows\<close>
  fp_round :: "nat \<Rightarrow> rat \<Rightarrow> rat"
    \<comment> \<open>\<open>Series.round(n)\<close> on one number\<close>
  fp_pct :: "nat \<Rightarrow> nat \<Rightarrow> rat"
    \<comment> \<open>\<open>cnt / total * 100\<close> for a count and a total that is not zero\<close>
  py_round :: "nat \<Rightarrow> rat \<Rightarrow> rat"
    \<comment> \<open>\<open>round(x, n)\<close>\<close>
  fmt_1f :: "rat \<Rightarrow> string"
    \<comment> \<open>the format \<open>.1f\<close>\<close>

definition mean :: "float_ops \<Rightarrow> float list \<Rightarrow> float" where
  \<comment> \<open>the mean of a group: NaN cells are skipped, and a group without a number gives NaN\<close>
  "mean fo xs =
     (let vs = List.map_filter id xs
      in if vs = [] then None else fp_mean fo vs)"

definition group_keys :: "row list \<Rightarrow> int list" where
  \<comment> \<open>\<open>groupby("Year")\<close>: one group for each year that occurs, missing years dropped, keys ascending\<close>
  "group_keys rs = sort (remdups (List.map_filter Year rs))"

definition group_mean :: "float_ops \<Rightarrow> row list \<Rightarrow> int \<Rightarrow> float" where
  "group_mean fo rs y = mean fo (map sentiment_score_signed (filter (\<lambda>r. Year r = Some y) rs))"

definition compute_annual_trend :: "float_ops \<Rightarrow> frame \<Rightarrow> int list \<times> float list" where
  "compute_annual_trend fo df =
     (if \<not> has_col ''Year'' df \<or> \<not> has_col ''sentiment_score_signed'' df then ([], [])
      else
        (let annual = map (\<lambda>y. (y, group_mean fo (rows df) y)) (group_keys (rows df))
         in (map fst annual, map (map_option (fp_round fo 4) \<circ> snd) annual)))"

text \<open>
  \<open>value_counts()\<close>: the number of rows for each label that occurs, missing labels
  dropped, largest count first. The model lists labels of equal count in the order of
  their first row; the source leaves that order to pandas.
\<close>

definition first_seen :: "'a list \<Rightarrow> 'a list" where
  "first_seen xs = rev (remdups (rev xs))"

fun insert_count :: "string \<times> nat \<Rightarrow> (string \<times> nat) list \<Rightarrow> (string \<times> nat) list" where
  "insert_count p [] = [p]"
| "insert_count p (q # qs) = (if snd p < snd q then q # insert_count p qs else p # q # qs)"

definition sort_values_desc :: "(string \<times> nat) list \<Rightarrow> (string \<times> nat) list" where
  \<comment> \<open>\<open>Series.sort_values(ascending=False)\<close> on the counts\<close>
  "sort_values_desc cs = foldr insert_count cs []"

definition value_counts :: "string option list \<Rightarrow> (string \<times> nat) list" where
  "value_counts col =
     (let ls = List.map_filter id col
      in sort_values_desc (map (\<lambda>l. (l, count_list ls l)) (first_seen ls)))"

record summary_row =
  Sentiment :: string
  Count :: nat
  Percentage :: string

record summary =
  total_articles :: nat
  dominant_label :: "string option"
  dominant_pct :: "rat option"
  summary_rows :: "summary_row list"

definition empty_summary :: summary where
  "empty_summary = \<lparr>total_articles = 0, dominant_label = None, dominant_pct = None, summary_rows = []\<rparr>"

definition summarise :: "float_ops \<Rightarrow> (string \<times> nat) list \<Rightarrow> failure + summary" where
  \<comment> \<open>\<open>compute_yearly_summary\<close> from \<open>total = int(counts.sum())\<close> on\<close>
  "summarise fo counts =
     (let total' = sum_list (map snd counts)
      in if total' = 0 then Inr empty_summary
         else
           (case counts of
              [] \<Rightarrow> Inl IndexError
            | (dom_label, dom_cnt) # _ \<Rightarrow>
                Inr \<lparr>total_articles = total',
                     dominant_label = Some dom_label,
                     dominant_pct = Some (py_round fo 1 (fp_pct fo dom_cnt total')),
                     summary_rows =
                       map (\<lambda>(label, cnt).
                              \<lparr>Sentiment = label, Count = cnt,
                               Percentage = fmt_1f fo (fp_pct fo cnt total') @ ''%''\<rparr>)
                         counts\<rparr>))"

definition compute_yearly_summary :: "float_ops \<Rightarrow> frame \<Rightarrow> string \<Rightarrow> failure + summary" where
  "compute_yearly_summary fo df selected_year =
     (let df_year =
            (if has_col ''Year'' df \<and> selected_year \<noteq> ''all'' then
               (case py_int selected_year of
                  Some y \<Rightarrow> select (\<lambda>r. Year r = Some y) df
                | None \<Rightarrow> copy df)
             else copy df)
      in if \<not> has_col ''sentiment_label'' df_year \<or> empty df_year then Inr empty_summary
         else summarise fo (sort_values_desc (value_counts (map sentiment_label (rows df_year)))))"

subsection \<open>The detail section\<close>

text \<open>
  The handler converts the requested identifier to the type of the first identifier
  in the result (a pandas integer column holds \<open>numpy.int64\<close>, a text column \<open>str\<close>)
  and falls back to comparing texts when the conversion raises. Reading the
  \<open>news_id\<close> column of a table that has none raises in the fallback too, outside any
  \<open>try\<close>.
\<close>

definition int64 :: "string \<Rightarrow> int option" where
  \<comment> \<open>\<open>numpy.int64(text)\<close>; \<open>None\<close> when it raises\<close>
  "int64 s =
     (case py_int s of
        None \<Rightarrow> None
      | Some n \<Rightarrow> if - (2 ^ 63) \<le> n \<and> n < 2 ^ 63 then Some n else None)"

definition like_first :: "ident \<Rightarrow> string \<Rightarrow> ident option" where
  \<comment> \<open>\<open>nid_type(selected_news_id)\<close>, \<open>nid_type\<close> the type of the first identifier\<close>
  "like_first i s = (case i of IntId _ \<Rightarrow> map_option IntId (int64 s) | StrId _ \<Rightarrow> Some (StrId s))"

definition as_str :: "ident \<Rightarrow> string" where
  \<comment> \<open>one cell of \<open>astype(str)\<close>\<close>
  "as_str i = (case i of IntId n \<Rightarrow> str_int n | StrId s \<Rightarrow> s)"

definition iloc0 :: "frame \<Rightarrow> failure + row" where
  \<comment> \<open>\<open>df.iloc[0]\<close>\<close>
  "iloc0 df = (case rows df of [] \<Rightarrow> Inl IndexError | r # _ \<Rightarrow> Inr r)"

definition detail :: "string \<Rightarrow> frame \<Rightarrow> failure + row option" where
  "detail selected_news_id flt =
     (if selected_news_id \<noteq> [] \<and> \<not> empty flt then
        (if \<not> has_col ''news_id'' flt then Inl (KeyError ''news_id'')
         else
           (case iloc0 flt of
              Inl e \<Rightarrow> Inl e
            | Inr r0 \<Rightarrow>
                (let row =
                       (case like_first (news_id r0) selected_news_id of
                          Some nid \<Rightarrow> select (\<lambda>r. news_id r = nid) flt
                        | None \<Rightarrow> select (\<lambda>r. as_str (news_id r) = selected_news_id) flt)
                 in if \<not> empty row then map_sum id Some (iloc0 row) else Inr None)))
      else Inr None)"

subsection \<open>\<open>index\<close>\<close>

text \<open>
  The response holds what \<open>index\<close> hands to the template, without the two option lists
  of the drop-down menus. \<open>table_rows\<close> are the rows of \<open>filtered[cols_to_show].head(200)\<close>;
  every column of \<^typ>\<open>row\<close> is among those \<open>cols_to_show\<close> can keep, and \<open>table_cols\<close>
  says which of them the frame has.
\<close>

record response =
  selected_year :: string
  selected_symbol :: string
  keyword :: string
  sent_min :: "float option"
  sent_max :: "float option"
  row_count :: nat
  table_cols :: "string list"
  table_rows :: "row list"
  selected_news_id :: string
  selected_row :: "row option"
  trend_years :: "int list"
  trend_scores :: "float list"
  summary_title :: string
  yearly_summary :: summary

definition cols_to_show :: "string list" where
  "cols_to_show =
     [''Year'', ''Date'', ''Stock_symbol'', ''news_id'', ''Article_title'',
      ''sentiment_label'', ''sentiment_score_signed'', ''avg_sentiment_score'',
      ''article_count'', ''publisher_count'', ''avg_title_len'', ''sentiment_category'']"

definition project :: "string list \<Rightarrow> frame \<Rightarrow> frame" where
  \<comment> \<open>\<open>df[cols]\<close> for a list of column names that the frame has\<close>
  "project cols df = df\<lparr>columns := cols\<rparr>"

definition index :: "float_ops \<Rightarrow> frame \<Rightarrow> request \<Rightarrow> failure + response" where
  "index fo DF rq =
     (case filtered DF rq of
        Inl e \<Rightarrow> Inl e
      | Inr flt \<Rightarrow>
          (let year = blank_is_all (args_get (arg_year rq) ''all'');
               nid = strip (args_get (arg_news_id rq) []);
               cols = filter (\<lambda>c. has_col c flt) cols_to_show;
               table_df = head 200 (project cols flt)
           in case detail nid flt of
                Inl e \<Rightarrow> Inl e
              | Inr sel \<Rightarrow>
                  (case compute_yearly_summary fo DF year of
                     Inl e \<Rightarrow> Inl e
                   | Inr ys \<Rightarrow>
                       Inr \<lparr>selected_year = year,
                            selected_symbol = blank_is_all (args_get (arg_symbol rq) ''all''),
                            keyword = strip (args_get (arg_keyword rq) []),
                            sent_min = fst (sent_range DF rq),
                            sent_max = snd (sent_range DF rq),
                            row_count = length (rows flt),
                            table_cols = cols,
                            table_rows = rows table_df,
                            selected_news_id = nid,
                            selected_row = sel,
                            trend_years = fst (compute_annual_trend fo DF),
                            trend_scores = snd (compute_annual_trend fo DF),
                            summary_title =
                              (if year = ''all'' then ''Overall Trend for All Years''
                               else ''Overall Trend for '' @ year),
                            yearly_summary = ys\<rparr>)))"

section \<open>\<open>flask2/app1.py\<close>\<close>

text \<open>
  The second request handler. Its loader also normalises the symbol column, and the
  handler normalises the requested symbol the same way. It reads a column without
  asking whether the frame has it, so a missing column raises \<open>KeyError\<close>; in the year
  step the bare \<open>except\<close> swallows that too. It sorts by \<open>Date\<close> without looking at the
  column's type; the frame comes from \<open>load_data\<close>, which has parsed the column.
\<close>

definition normalize_symbol :: "string \<Rightarrow> string" where
  \<comment> \<open>\<open>.strip().upper()\<close>\<close>
  "normalize_symbol s = upper (strip s)"

definition unset :: "string \<Rightarrow> bool" where
  \<comment> \<open>\<open>value in ["", "all", None]\<close> for a text\<close>
  "unset s = (s = [] \<or> s = ''all'')"

definition year_filter_app1 :: "string \<Rightarrow> frame \<Rightarrow> frame" where
  "year_filter_app1 year flt =
     (if \<not> unset year then
        (if \<not> has_col ''Year'' flt then flt
         else (case py_int year of
                 Some y \<Rightarrow> select (\<lambda>r. Year r = Some y) flt
               | None \<Rightarrow> flt))
      else flt)"

definition symbol_filter_app1 :: "string \<Rightarrow> frame \<Rightarrow> failure + frame" where
  "symbol_filter_app1 symbol flt =
     (if \<not> unset symbol then
        (if \<not> has_col ''Stock_symbol'' flt then Inl (KeyError ''Stock_symbol'')
         else Inr (select (\<lambda>r. Stock_symbol r = Some (normalize_symbol symbol)) flt))
      else Inr flt)"

definition keyword_filter_app1 :: "string \<Rightarrow> frame \<Rightarrow> failure + frame" where
  "keyword_filter_app1 kw flt =
     (if kw \<noteq> [] then
        (if \<not> has_col ''Article_title'' flt then Inl (KeyError ''Article_title'')
         else (case parse_pattern kw of
                 None \<Rightarrow> Inl PatternNotModelled
               | Some p \<Rightarrow> Inr (select (title_contains p) flt)))
      else Inr flt)"

definition news_id_filter_app1 :: "string \<Rightarrow> frame \<Rightarrow> failure + frame" where
  "news_id_filter_app1 nid flt =
     (if nid \<noteq> [] then
        (if \<not> has_col ''news_id'' flt then Inl (KeyError ''news_id'')
         else Inr (select (\<lambda>r. as_str (news_id r) = nid) flt))
      else Inr flt)"

definition date_sort_app1 :: "frame \<Rightarrow> frame" where
  "date_sort_app1 flt = (if has_col ''Date'' flt then sort_values_Date_desc flt else flt)"

definition filtered_app1 :: "frame \<Rightarrow> request \<Rightarrow> failure + frame" where
  \<comment> \<open>the variable \<open>filtered\<close> of this \<open>index\<close> after the sort\<close>
  "filtered_app1 DF rq =
     (let year = args_get (arg_year rq) ''all'';
          symbol = args_get (arg_symbol rq) ''all'';
          kw = strip (args_get (arg_keyword rq) []);
          nid = strip (args_get (arg_news_id rq) []);
          (lo, hi) = sent_range DF rq;
          f1 = year_filter_app1 year (copy DF)
      in case symbol_filter_app1 symbol f1 of
           Inl e \<Rightarrow> Inl e
         | Inr f2 \<Rightarrow>
             (case sentiment_filter DF lo hi f2 of
                Inl e \<Rightarrow> Inl e
              | Inr f3 \<Rightarrow>
                  (case keyword_filter_app1 kw f3 of
                     Inl e \<Rightarrow> Inl e
                   | Inr f4 \<Rightarrow>
                       (case news_id_filter_app1 nid f4 of
                          Inl e \<Rightarrow> Inl e
                        | Inr f5 \<Rightarrow> Inr (date_sort_app1 f5)))))"

definition compute_annual_trend_app1 :: "float_ops \<Rightarrow> frame \<Rightarrow> int list \<times> float list" where
  "compute_annual_trend_app1 fo df =
     (if \<not> has_col ''Year'' df \<or> \<not> has_col ''sentiment_score_signed'' df then ([], [])
      else
        (let annual = map (\<lambda>y. (y, group_mean fo (rows df) y)) (group_keys (rows df))
         in (map fst annual, map (map_option (fp_round fo 4) \<circ> snd) annual)))"

definition compute_yearly_summary_app1 :: "float_ops \<Rightarrow> frame \<Rightarrow> string \<Rightarrow> failure + summary" where
  "compute_yearly_summary_app1 fo df year =
     (let df_year =
            (if \<not> unset year \<and> has_col ''Year'' df then
               (case py_int year of
                  Some y \<Rightarrow> select (\<lambda>r. Year r = Some y) df
                | None \<Rightarrow> copy df)
             else copy df)
      in if \<not> has_col ''sentiment_label'' df_year \<or> empty df_year then Inr empty_summary
         else summarise fo (value_counts (map sentiment_label (rows df_year))))"

definition detail_app1 :: "string \<Rightarrow> frame \<Rightarrow> failure + row option" where
  "detail_app1 nid flt =
     (if nid \<noteq> [] then
        (if \<not> has_col ''news_id'' flt then Inl (KeyError ''news_id'')
         else
           (let match = select (\<lambda>r. as_str (news_id r) = nid) flt
            in if \<not> empty match then map_sum id Some (iloc0 match) else Inr None))
      else Inr None)"

definition index_app1 :: "float_ops \<Rightarrow> frame \<Rightarrow> request \<Rightarrow> failure + response" where
  "index_app1 fo DF rq =
     (case filtered_app1 DF rq of
        Inl e \<Rightarrow> Inl e
      | Inr flt \<Rightarrow>
          (let year = args_get (arg_year rq) ''all'';
               symbol = args_get (arg_symbol rq) ''all'';
               nid = strip (args_get (arg_news_id rq) []);
               cols = filter (\<lambda>c. has_col c flt) cols_to_show;
               table_df = head 200 (project cols flt)
           in case detail_app1 nid flt of
                Inl e \<Rightarrow> Inl e
              | Inr sel \<Rightarrow>
                  (case compute_yearly_summary_app1 fo DF year of
                     Inl e \<Rightarrow> Inl e
                   | Inr ys \<Rightarrow>
                       Inr \<lparr>selected_year = year,
                            selected_symbol = (if unset symbol then symbol else normalize_symbol symbol),
                            keyword = strip (args_get (arg_keyword rq) []),
                            sent_min = fst (sent_range DF rq),
                            sent_max = snd (sent_range DF rq),
                            row_count = length (rows flt),
                            table_cols = cols,
                            table_rows = rows table_df,
                            selected_news_id = nid,
                            selected_row = sel,
                            trend_years = fst (compute_annual_trend_app1 fo DF),
                            trend_scores = snd (compute_annual_trend_app1 fo DF),
                            summary_title =
                              (if year = ''all'' then ''Overall Trend for All Years''
                               else ''Overall Trend for '' @ year),
                            yearly_summary = ys\<rparr>)))"

section \<open>\<open>backend.py\<close> and \<open>backnew.py\<close>\<close>

text \<open>
  The two dashboard scripts run top to bottom on every interaction. What the user has
  set in the side bar is the input: the year and the symbol of the two select boxes
  (\<open>None\<close> for the entry \<open>(All)\<close>), the two ends of the slider and the keyword. A select
  box or the slider exists only if the table has the column; otherwise the script
  takes \<open>(All)\<close>, or no range.
\<close>

record sidebar =
  year_box :: "int option"
  symbol_box :: "string option"
  slider :: "float \<times> float"
  text_input :: string

definition selected_year_of :: "frame \<Rightarrow> sidebar \<Rightarrow> int option" where
  "selected_year_of df ui = (if has_col ''Year'' df then year_box ui else None)"

definition symbol_of :: "frame \<Rightarrow> sidebar \<Rightarrow> string option" where
  "symbol_of df ui = (if has_col ''Stock_symbol'' df then symbol_box ui else None)"

definition sentiment_range :: "frame \<Rightarrow> sidebar \<Rightarrow> (float \<times> float) option" where
  "sentiment_range df ui = (if has_col ''sentiment_score_signed'' df then Some (slider ui) else None)"

definition range_filter :: "(float \<times> float) option \<Rightarrow> frame \<Rightarrow> frame" where
  \<comment> \<open>\<open>if sentiment_range:\<close> holds for every pair\<close>
  "range_filter rng flt = (case rng of None \<Rightarrow> flt | Some (lo, hi) \<Rightarrow> select (in_range lo hi) flt)"

definition filtered_backend :: "frame \<Rightarrow> sidebar \<Rightarrow> failure + frame" where
  \<comment> \<open>\<open>backend.py\<close>, section 3: the variable \<open>filtered\<close> after the four filters\<close>
  "filtered_backend df ui =
     (let f1 = (case selected_year_of df ui of
                  None \<Rightarrow> copy df
                | Some y \<Rightarrow> select (\<lambda>r. Year r = Some y) (copy df));
          f2 = (case symbol_of df ui of
                  None \<Rightarrow> f1
                | Some s \<Rightarrow> select (\<lambda>r. Stock_symbol r = Some s) f1);
          f3 = range_filter (sentiment_range df ui) f2
      in if text_input ui \<noteq> [] then
           (if \<not> has_col ''Article_title'' f3 then Inl (KeyError ''Article_title'')
            else (case parse_pattern (text_input ui) of
                    None \<Rightarrow> Inl PatternNotModelled
                  | Some p \<Rightarrow> Inr (select (title_contains p) f3)))
         else Inr f3)"

definition charts_backend :: "frame \<Rightarrow> sidebar \<Rightarrow> failure + unit" where
  \<comment> \<open>\<open>backend.py\<close>, sections 4 and 5, which run before the table is drawn: the trend reads
      the score column unguarded, and the summary takes the first count unguarded\<close>
  "charts_backend df ui =
     (if has_col ''Year'' df \<and> \<not> has_col ''sentiment_score_signed'' df
      then Inl (KeyError ''sentiment_score_signed'')
      else
        (let year_df = (case selected_year_of df ui of
                          None \<Rightarrow> df
                        | Some y \<Rightarrow> select (\<lambda>r. Year r = Some y) df)
         in if has_col ''sentiment_label'' year_df \<and> 0 < length (rows year_df)
               \<and> value_counts (map sentiment_label (rows year_df)) = []
            then Inl IndexError else Inr ()))"

definition results_backend :: "frame \<Rightarrow> sidebar \<Rightarrow> failure + frame" where
  \<comment> \<open>\<open>backend.py\<close>, section 6: \<open>filtered\<close> after the sort\<close>
  "results_backend df ui =
     (case filtered_backend df ui of
        Inl e \<Rightarrow> Inl e
      | Inr flt \<Rightarrow> (case charts_backend df ui of Inl e \<Rightarrow> Inl e | Inr _ \<Rightarrow> Inr (date_sort flt)))"

definition filtered_backnew :: "frame \<Rightarrow> sidebar \<Rightarrow> failure + frame" where
  \<comment> \<open>\<open>backnew.py\<close>, section 3: the variable \<open>filtered\<close> after the four filters\<close>
  "filtered_backnew df ui =
     (let f1 = (case selected_year_of df ui of
                  None \<Rightarrow> copy df
                | Some y \<Rightarrow> if has_col ''Year'' (copy df)
                            then select (\<lambda>r. Year r = Some y) (copy df) else copy df);
          f2 = (case symbol_of df ui of
                  None \<Rightarrow> f1
                | Some s \<Rightarrow> select (\<lambda>r. Stock_symbol r = Some s) f1);
          f3 = range_filter (sentiment_range df ui) f2
      in keyword_filter (text_input ui) f3)"

definition results_backnew :: "frame \<Rightarrow> sidebar \<Rightarrow> failure + frame" where
  \<comment> \<open>\<open>backnew.py\<close>, section 5: \<open>filtered\<close> after the sort; section 4 is guarded and cannot raise\<close>
  "results_backnew df ui = map_sum id date_sort (filtered_backnew df ui)"

definition cols_dashboard :: "string list" where
  "cols_dashboard =
     [''Year'', ''Date'', ''Stock_symbol'', ''news_id'', ''Article_title'',
      ''sentiment_label'', ''sentiment_score_signed'', ''avg_sentiment_score'',
      ''pos_ratio'', ''neg_ratio'', ''article_count'', ''publisher_count'',
      ''avg_title_len'', ''sentiment_category'']"

definition table_dashboard :: "frame \<Rightarrow> frame" where
  \<comment> \<open>\<open>filtered[cols].head(200)\<close>, what the result table shows\<close>
  "table_dashboard flt = head 200 (project (filter (\<lambda>c. has_col c flt) cols_dashboard) flt)"

section \<open>The pipeline over a store of frames\<close>

text \<open>
  A pandas frame is an object and a variable holds a reference to it, so whether the
  loaded table survives a request depends on which operations make a new object and
  which write into an old one. Here the frames live in a store, a reference is an
  address, and every operation the pipeline uses is written as what it does to the
  store: \<open>DF.copy()\<close>, \<open>df[mask]\<close>, \<open>df[cols]\<close>, \<open>sort_values\<close> (called without
  \<open>inplace\<close>) and \<open>head\<close> each allocate a frame and leave their argument alone; an
  assignment \<open>filtered = ...\<close> rebinds the variable to the new address. A step that is
  skipped leaves the variable on the frame it had.
\<close>

type_synonym ref = nat

record store =
  frames :: "ref \<Rightarrow> frame"
  fresh :: ref

definition new_frame :: "frame \<Rightarrow> store \<Rightarrow> ref \<times> store" where
  "new_frame f st = (fresh st, st\<lparr>frames := (frames st)(fresh st := f), fresh := Suc (fresh st)\<rparr>)"

definition copy_st :: "ref \<Rightarrow> store \<Rightarrow> ref \<times> store" where
  "copy_st p st = new_frame (copy (frames st p)) st"

definition getitem_st :: "(row \<Rightarrow> bool) \<Rightarrow> ref \<Rightarrow> store \<Rightarrow> ref \<times> store" where
  "getitem_st keep p st = new_frame (select keep (frames st p)) st"

definition getcols_st :: "string list \<Rightarrow> ref \<Rightarrow> store \<Rightarrow> ref \<times> store" where
  "getcols_st cols p st = new_frame (project cols (frames st p)) st"

definition sort_values_st :: "ref \<Rightarrow> store \<Rightarrow> ref \<times> store" where
  "sort_values_st p st = new_frame (sort_values_Date_desc (frames st p)) st"

definition head_st :: "nat \<Rightarrow> ref \<Rightarrow> store \<Rightarrow> ref \<times> store" where
  "head_st n p st = new_frame (head n (frames st p)) st"

definition then_st ::
  "(failure + ref) \<times> store \<Rightarrow> (ref \<Rightarrow> store \<Rightarrow> (failure + ref) \<times> store) \<Rightarrow> (failure + ref) \<times> store"
where
  "then_st m k = (case m of (Inl e, st) \<Rightarrow> (Inl e, st) | (Inr p, st) \<Rightarrow> k p st)"

definition ok_st :: "ref \<times> store \<Rightarrow> (failure + ref) \<times> store" where
  "ok_st m = (Inr (fst m), snd m)"

subsection \<open>\<open>flask/app.py\<close>\<close>

definition year_st :: "string \<Rightarrow> ref \<Rightarrow> store \<Rightarrow> ref \<times> store" where
  "year_st year p st =
     (if year \<noteq> ''all'' \<and> has_col ''Year'' (frames st p) then
        (case py_int year of
           Some y \<Rightarrow> getitem_st (\<lambda>r. Year r = Some y) p st
         | None \<Rightarrow> (p, st))
      else (p, st))"

definition symbol_st :: "string \<Rightarrow> ref \<Rightarrow> store \<Rightarrow> ref \<times> store" where
  "symbol_st symbol p st =
     (if symbol \<noteq> ''all'' \<and> has_col ''Stock_symbol'' (frames st p)
      then getitem_st (\<lambda>r. Stock_symbol r = Some symbol) p st
      else (p, st))"

definition sentiment_st ::
  "ref \<Rightarrow> float option \<Rightarrow> float option \<Rightarrow> ref \<Rightarrow> store \<Rightarrow> (failure + ref) \<times> store" where
  "sentiment_st DF lo hi p st =
     (if MIN_SCORE (frames st DF) \<noteq> None then
        (case (lo, hi) of
           (Some a, Some b) \<Rightarrow> ok_st (getitem_st (in_range a b) p st)
         | _ \<Rightarrow> (Inl TypeError, st))
      else (Inr p, st))"

definition keyword_st :: "string \<Rightarrow> ref \<Rightarrow> store \<Rightarrow> (failure + ref) \<times> store" where
  "keyword_st kw p st =
     (if kw \<noteq> [] \<and> has_col ''Article_title'' (frames st p) then
        (case parse_pattern kw of
           None \<Rightarrow> (Inl PatternNotModelled, st)
         | Some pat \<Rightarrow> ok_st (getitem_st (title_contains pat) p st))
      else (Inr p, st))"

definition date_sort_st :: "ref \<Rightarrow> store \<Rightarrow> ref \<times> store" where
  "date_sort_st p st =
     (if has_col ''Date'' (frames st p) \<and> date_is_datetime (frames st p)
      then sort_values_st p st else (p, st))"

definition table_st :: "string list \<Rightarrow> ref \<Rightarrow> store \<Rightarrow> ref \<times> store" where
  \<comment> \<open>\<open>filtered[cols_to_show].head(200)\<close>\<close>
  "table_st shown p st =
     (let cols = filter (\<lambda>c. has_col c (frames st p)) shown;
          m = getcols_st cols p st
      in head_st 200 (fst m) (snd m))"

definition index_st :: "ref \<Rightarrow> request \<Rightarrow> store \<Rightarrow> (failure + ref) \<times> store" where
  \<comment> \<open>\<open>index\<close> from \<open>filtered = DF.copy()\<close> to \<open>table_df\<close>; the result is the address of \<open>table_df\<close>\<close>
  "index_st DF rq st =
     (let year = blank_is_all (args_get (arg_year rq) ''all'');
          symbol = blank_is_all (args_get (arg_symbol rq) ''all'');
          kw = strip (args_get (arg_keyword rq) []);
          rng = sent_range (frames st DF) rq;
          m0 = copy_st DF st;
          m1 = year_st year (fst m0) (snd m0);
          m2 = symbol_st symbol (fst m1) (snd m1)
      in then_st (sentiment_st DF (fst rng) (snd rng) (fst m2) (snd m2))
           (\<lambda>p3 s3. then_st (keyword_st kw p3 s3)
              (\<lambda>p4 s4. let m5 = date_sort_st p4 s4
                        in ok_st (table_st cols_to_show (fst m5) (snd m5)))))"

subsection \<open>\<open>backnew.py\<close>\<close>

definition script_st :: "ref \<Rightarrow> sidebar \<Rightarrow> store \<Rightarrow> (failure + ref) \<times> store" where
  \<comment> \<open>sections 3 and 5 of the script, from \<open>filtered = df.copy()\<close> to the frame in the table\<close>
  "script_st df ui st =
     (let m0 = copy_st df st;
          m1 = (case selected_year_of (frames st df) ui of
                  None \<Rightarrow> m0
                | Some y \<Rightarrow> if has_col ''Year'' (frames (snd m0) (fst m0))
                            then getitem_st (\<lambda>r. Year r = Some y) (fst m0) (snd m0) else m0);
          m2 = (case symbol_of (frames st df) ui of
                  None \<Rightarrow> m1
                | Some s \<Rightarrow> getitem_st (\<lambda>r. Stock_symbol r = Some s) (fst m1) (snd m1));
          m3 = (case sentiment_range (frames st df) ui of
                  None \<Rightarrow> m2
                | Some (lo, hi) \<Rightarrow> getitem_st (in_range lo hi) (fst m2) (snd m2))
      in then_st (keyword_st (text_input ui) (fst m3) (snd m3))
           (\<lambda>p4 s4. let m5 = date_sort_st p4 s4
                     in ok_st (table_st cols_dashboard (fst m5) (snd m5))))"

text \<open>
  A store grows when it keeps every frame it had and only adds new ones.
\<close>

abbreviation grows :: "store \<Rightarrow> store \<Rightarrow> bool" where
  "grows st st' \<equiv> fresh st \<le> fresh st' \<and> (\<forall>q<fresh st. frames st' q = frames st q)"

section \<open>Sample data\<close>

text \<open>
  The table of the specification's scenario, with a fourth record that has no score.
\<close>

definition all_columns :: "string list" where
  "all_columns = [''news_id'', ''Date'', ''Year'', ''Stock_symbol'', ''Article_title'',
                  ''sentiment_label'', ''sentiment_score_signed'']"

definition row_a :: row where
  "row_a = \<lparr>news_id = IntId 1, Date = Some 20200310, Year = Some 2020, Stock_symbol = Some ''AAA'',
            Article_title = Some ''Good news'', sentiment_label = Some ''positive'',
            sentiment_score_signed = Some (1 / 2)\<rparr>"

definition row_b :: row where
  "row_b = \<lparr>news_id = IntId 2, Date = Some 20200705, Year = Some 2020, Stock_symbol = Some ''BBB'',
            Article_title = Some ''Bad news'', sentiment_label = Some ''negative'',
            sentiment_score_signed = Some (- 3 / 10)\<rparr>"

definition row_c :: row where
  "row_c = \<lparr>news_id = IntId 3, Date = Some 20210122, Year = Some 2021, Stock_symbol = Some ''AAA'',
            Article_title = Some ''Great news'', sentiment_label = Some ''positive'',
            sentiment_score_signed = Some (4 / 5)\<rparr>"

definition row_d :: row where
  "row_d = \<lparr>news_id = IntId 4, Date = Some 20220401, Year = Some 2022, Stock_symbol = Some ''CCC'',
            Article_title = Some ''Analyst guesses wrong'', sentiment_label = Some ''neutral'',
            sentiment_score_signed = None\<rparr>"

definition sample_DF :: frame where
  "sample_DF = \<lparr>columns = all_columns, date_is_datetime = True, rows = [row_a, row_b, row_c, row_d]\<rparr>"

definition no_filters :: request where
  "no_filters = \<lparr>arg_year = None, arg_symbol = None, arg_keyword = None, arg_news_id = None,
                 arg_sent_min = Missing, arg_sent_max = Missing\<rparr>"

definition default_sidebar :: "frame \<Rightarrow> sidebar" where
  "default_sidebar df = \<lparr>year_box = None, symbol_box = None,
                         slider = (column_min df, column_max df), text_input = []\<rparr>"

definition narrow_request :: request where
  "narrow_request = \<lparr>arg_year = Some ''2020'', arg_symbol = Some ''AAA'', arg_keyword = Some ''good'',
                     arg_news_id = Some ''1'', arg_sent_min = Parsed (Some 0), arg_sent_max = Missing\<rparr>"

definition year_request :: request where
  "year_request = \<lparr>arg_year = Some ''2020'', arg_symbol = None, arg_keyword = None,
                   arg_news_id = None, arg_sent_min = Missing, arg_sent_max = Missing\<rparr>"

definition symbol_request :: request where
  "symbol_request = \<lparr>arg_year = None, arg_symbol = Some '' aaa'', arg_keyword = None,
                     arg_news_id = None, arg_sent_min = Missing, arg_sent_max = Missing\<rparr>"

definition row_u :: row where
  "row_u = \<lparr>news_id = IntId 5, Date = Some 20230105, Year = Some 2023, Stock_symbol = Some ''AAA'',
            Article_title = Some ''U.S. stocks rally'', sentiment_label = Some ''positive'',
            sentiment_score_signed = Some (3 / 10)\<rparr>"

definition row_g :: row where
  "row_g = \<lparr>news_id = IntId 6, Date = Some 20230104, Year = Some 2023, Stock_symbol = Some ''BBB'',
            Article_title = Some ''Analyst guesses wrong'', sentiment_label = Some ''negative'',
            sentiment_score_signed = Some (- 1 / 5)\<rparr>"

definition row_q :: row where
  "row_q = \<lparr>news_id = IntId 7, Date = Some 20230103, Year = Some 2023, Stock_symbol = Some ''CCC'',
            Article_title = Some ''Q3 results'', sentiment_label = Some ''neutral'',
            sentiment_score_signed = Some 0\<rparr>"

definition headline_DF :: frame where
  "headline_DF = \<lparr>columns = all_columns, date_is_datetime = True, rows = [row_u, row_g, row_q]\<rparr>"

definition keyword_request :: "string \<Rightarrow> request" where
  "keyword_request k = \<lparr>arg_year = None, arg_symbol = None, arg_keyword = Some k,
                        arg_news_id = None, arg_sent_min = Missing, arg_sent_max = Missing\<rparr>"

definition sample_store :: store where
  \<comment> \<open>the store after start-up: the loaded table at address 0\<close>
  "sample_store = \<lparr>frames = (\<lambda>_. sample_DF), fresh = 1\<rparr>"

section \<open>Properties\<close>



subsection \<open>The sort\<close>

lemma mset_insert_desc: "mset (insert_desc r xs) = add_mset r (mset xs)"
  by (induction xs) auto

lemma mset_sort_desc: "mset (sort_desc rs) = mset rs"
  by (induction rs) (auto simp: sort_desc_def mset_insert_desc)

lemma set_sort_desc: "set (sort_desc rs) = set rs"
  using mset_sort_desc [of rs] by (metis set_mset_mset)

lemma length_sort_desc: "length (sort_desc rs) = length rs"
  using mset_sort_desc [of rs] by (metis size_mset)

lemma date_ge_trans: "date_ge a b \<Longrightarrow> date_ge b c \<Longrightarrow> date_ge a c"
  by (auto simp: date_ge_def date_gt_def split: option.splits)

lemma date_gt_ge: "date_gt a b \<Longrightarrow> date_ge a b"
  by (auto simp: date_ge_def date_gt_def split: option.splits)

lemma set_insert_desc: "set (insert_desc r xs) = insert r (set xs)"
  by (induction xs) auto

lemma sorted_insert_desc:
  "sorted_wrt date_ge xs \<Longrightarrow> sorted_wrt date_ge (insert_desc r xs)"
proof (induction xs)
  case Nil
  then show ?case by simp
next
  case (Cons x xs)
  show ?case
  proof (cases "date_gt x r")
    case True
    with Cons show ?thesis by (auto simp: set_insert_desc date_gt_ge)
  next
    case False
    then have rx: "date_ge r x" by (simp add: date_ge_def)
    with Cons.prems have "\<forall>y\<in>set xs. date_ge r y" by (auto intro: date_ge_trans)
    with False rx Cons.prems show ?thesis by auto
  qed
qed

lemma sorted_sort_desc: "sorted_wrt date_ge (sort_desc rs)"
  by (induction rs) (auto simp: sort_desc_def sorted_insert_desc)

subsection \<open>The global score range\<close>

lemma fold_min_le: "x \<in> set (v # vs) \<Longrightarrow> fold min vs v \<le> (x::rat)"
  by (metis List.finite_set Min.set_eq_fold Min_le)

lemma le_fold_max: "x \<in> set (v # vs) \<Longrightarrow> (x::rat) \<le> fold max vs v"
  by (metis List.finite_set Max.set_eq_fold Max_ge)

lemma column_min_le:
  "r \<in> set (rows df) \<Longrightarrow> sentiment_score_signed r = Some s \<Longrightarrow> fle (column_min df) (Some s)"
proof -
  assume r: "r \<in> set (rows df)" and s: "sentiment_score_signed r = Some s"
  then have "s \<in> set (List.map_filter sentiment_score_signed (rows df))"
    by (auto simp: List.map_filter_def intro!: image_eqI [where x = r])
  then show ?thesis
    using fold_min_le [of s]
    by (cases "List.map_filter sentiment_score_signed (rows df)")
       (auto simp: column_min_def fle_def)
qed

lemma le_column_max:
  "r \<in> set (rows df) \<Longrightarrow> sentiment_score_signed r = Some s \<Longrightarrow> fle (Some s) (column_max df)"
proof -
  assume r: "r \<in> set (rows df)" and s: "sentiment_score_signed r = Some s"
  then have "s \<in> set (List.map_filter sentiment_score_signed (rows df))"
    by (auto simp: List.map_filter_def intro!: image_eqI [where x = r])
  then show ?thesis
    using le_fold_max [of s]
    by (cases "List.map_filter sentiment_score_signed (rows df)")
       (auto simp: column_max_def fle_def)
qed

lemma in_range_not_null: "in_range lo hi r \<Longrightarrow> sentiment_score_signed r \<noteq> None"
  by (auto simp: in_range_def fle_def fge_def split: option.splits)

lemma in_range_global:
  "r \<in> set (rows df) \<Longrightarrow>
   in_range (column_min df) (column_max df) r = (sentiment_score_signed r \<noteq> None)"
  by (cases "sentiment_score_signed r")
     (auto simp: in_range_def fge_def column_min_le le_column_max, auto simp: fle_def)


subsection \<open>Rows that pass the range step\<close>

lemma rows_select [simp]: "rows (select p f) = filter p (rows f)"
  by (simp add: select_def)
lemma columns_select [simp]: "columns (select p f) = columns f"
  by (simp add: select_def)
lemma has_col_select [simp]: "has_col c (select p f) = has_col c f"
  by (simp add: has_col_def)
lemma dt_select [simp]: "date_is_datetime (select p f) = date_is_datetime f"
  by (simp add: select_def)

lemma rows_year_filter: "set (rows (year_filter y f)) \<subseteq> set (rows f)"
  by (auto simp: year_filter_def split: option.splits)
lemma rows_symbol_filter: "set (rows (symbol_filter y f)) \<subseteq> set (rows f)"
  by (auto simp: symbol_filter_def)
lemma rows_keyword_filter: "keyword_filter k f = Inr g \<Longrightarrow> set (rows g) \<subseteq> set (rows f)"
  by (auto simp: keyword_filter_def split: option.splits if_splits)
lemma rows_date_sort: "set (rows (date_sort f)) = set (rows f)"
  by (auto simp: date_sort_def sort_values_Date_desc_def set_sort_desc)
lemma rows_sentiment_filter:
  "sentiment_filter DF lo hi f = Inr g \<Longrightarrow> MIN_SCORE DF \<noteq> None \<Longrightarrow>
   \<exists>a b. lo = Some a \<and> hi = Some b \<and> rows g = filter (in_range a b) (rows f)"
  by (auto simp: sentiment_filter_def split: option.splits if_splits)

lemma filtered_in_range:
  assumes "filtered DF rq = Inr f" "has_col ''sentiment_score_signed'' DF" "r \<in> set (rows f)"
  shows "\<exists>lo hi. sent_range DF rq = (Some lo, Some hi) \<and> in_range lo hi r"
proof -
  obtain lo hi where sr: "sent_range DF rq = (lo, hi)" by (cases "sent_range DF rq")
  from assms(2) have ms: "MIN_SCORE DF \<noteq> None" by (simp add: MIN_SCORE_def)
  let ?f2 = "symbol_filter (blank_is_all (args_get (arg_symbol rq) ''all''))
              (year_filter (blank_is_all (args_get (arg_year rq) ''all'')) (copy DF))"
  from assms(1) sr obtain f3 f4 where
    f3: "sentiment_filter DF lo hi ?f2 = Inr f3" and
    f4: "keyword_filter (strip (args_get (arg_keyword rq) [])) f3 = Inr f4" and
    f: "f = date_sort f4"
    by (auto simp: filtered_def Let_def split: sum.splits)
  from rows_sentiment_filter [OF f3 ms] obtain a b where
    ab: "lo = Some a" "hi = Some b" "rows f3 = filter (in_range a b) (rows ?f2)" by blast
  from assms(3) f have "r \<in> set (rows f4)" by (simp add: rows_date_sort)
  with rows_keyword_filter [OF f4] have "r \<in> set (rows f3)" by blast
  with ab have "in_range a b r" by simp
  with sr ab show ?thesis by simp
qed


lemma rows_keyword_filter_app1: "keyword_filter_app1 k f = Inr g \<Longrightarrow> set (rows g) \<subseteq> set (rows f)"
  by (auto simp: keyword_filter_app1_def split: option.splits if_splits)
lemma rows_news_id_filter_app1: "news_id_filter_app1 k f = Inr g \<Longrightarrow> set (rows g) \<subseteq> set (rows f)"
  by (auto simp: news_id_filter_app1_def split: if_splits)
lemma rows_date_sort_app1: "set (rows (date_sort_app1 f)) = set (rows f)"
  by (auto simp: date_sort_app1_def sort_values_Date_desc_def set_sort_desc)

lemma filtered_app1_in_range:
  assumes "filtered_app1 DF rq = Inr f" "has_col ''sentiment_score_signed'' DF" "r \<in> set (rows f)"
  shows "\<exists>lo hi. sent_range DF rq = (Some lo, Some hi) \<and> in_range lo hi r"
proof -
  obtain lo hi where sr: "sent_range DF rq = (lo, hi)" by (cases "sent_range DF rq")
  from assms(2) have ms: "MIN_SCORE DF \<noteq> None" by (simp add: MIN_SCORE_def)
  from assms(1) sr obtain f2 f3 f4 f5 where
    f3: "sentiment_filter DF lo hi f2 = Inr f3" and
    f4: "keyword_filter_app1 (strip (args_get (arg_keyword rq) [])) f3 = Inr f4" and
    f5: "news_id_filter_app1 (strip (args_get (arg_news_id rq) [])) f4 = Inr f5" and
    f: "f = date_sort_app1 f5"
    by (auto simp: filtered_app1_def Let_def split: sum.splits)
  from rows_sentiment_filter [OF f3 ms] obtain a b where
    ab: "lo = Some a" "hi = Some b" "rows f3 = filter (in_range a b) (rows f2)" by blast
  from assms(3) f have "r \<in> set (rows f5)" by (simp add: rows_date_sort_app1)
  with rows_news_id_filter_app1 [OF f5] rows_keyword_filter_app1 [OF f4]
  have "r \<in> set (rows f3)" by blast
  with ab have "in_range a b r" by simp
  with sr ab show ?thesis by simp
qed

lemma rows_range_filter:
  "set (rows (range_filter (Some (lo, hi)) f)) = {r \<in> set (rows f). in_range lo hi r}"
  by (auto simp: range_filter_def)

lemma filtered_backend_in_range:
  assumes "filtered_backend df ui = Inr f" "has_col ''sentiment_score_signed'' df" "r \<in> set (rows f)"
  shows "in_range (fst (slider ui)) (snd (slider ui)) r"
  using assms
  by (cases "slider ui")
     (auto simp: filtered_backend_def Let_def sentiment_range_def range_filter_def
           split: if_splits option.splits)

lemma filtered_backnew_in_range:
  assumes "filtered_backnew df ui = Inr f" "has_col ''sentiment_score_signed'' df" "r \<in> set (rows f)"
  shows "in_range (fst (slider ui)) (snd (slider ui)) r"
proof -
  obtain lo hi where sl: "slider ui = (lo, hi)" by (cases "slider ui")
  from assms(1) obtain f2 where
    k: "keyword_filter (text_input ui) (range_filter (sentiment_range df ui) f2) = Inr f"
    by (auto simp: filtered_backnew_def Let_def)
  from rows_keyword_filter [OF k] assms(3)
  have "r \<in> set (rows (range_filter (sentiment_range df ui) f2))" by blast
  with assms(2) sl show ?thesis by (simp add: sentiment_range_def rows_range_filter)
qed

lemma results_backend_rows:
  "results_backend df ui = Inr f \<Longrightarrow> \<exists>g. filtered_backend df ui = Inr g \<and> set (rows f) = set (rows g)"
  by (auto simp: results_backend_def rows_date_sort split: sum.splits)

lemma results_backnew_rows:
  "results_backnew df ui = Inr f \<Longrightarrow> \<exists>g. filtered_backnew df ui = Inr g \<and> set (rows f) = set (rows g)"
  by (cases "filtered_backnew df ui") (auto simp: results_backnew_def rows_date_sort)

lemma index_table_rows:
  "index fo DF rq = Inr resp \<Longrightarrow>
   \<exists>f. filtered DF rq = Inr f \<and> table_rows resp = take 200 (rows f) \<and> row_count resp = length (rows f)"
  by (auto simp: index_def Let_def head_def project_def split: sum.splits)

lemma index_app1_table_rows:
  "index_app1 fo DF rq = Inr resp \<Longrightarrow>
   \<exists>f. filtered_app1 DF rq = Inr f \<and> table_rows resp = take 200 (rows f) \<and> row_count resp = length (rows f)"
  by (auto simp: index_app1_def Let_def head_def project_def split: sum.splits)

text \<open>
  Claim C10. When the table has the score column, every row that the filter pipeline
  returns has a score, whatever the request: the range step always runs, with the
  global minimum and maximum when the request gives no bounds, and a missing score is
  inside no range. This holds for the two request handlers (their full result and the
  rows of the table they show) and for the two dashboard scripts.
\<close>

theorem returned_rows_have_score:
  assumes "has_col ''sentiment_score_signed'' DF"
  shows "(\<forall>f. filtered DF rq = Inr f \<longrightarrow> (\<forall>r\<in>set (rows f). sentiment_score_signed r \<noteq> None))
       \<and> (\<forall>f. filtered_app1 DF rq = Inr f \<longrightarrow> (\<forall>r\<in>set (rows f). sentiment_score_signed r \<noteq> None))
       \<and> (\<forall>f. results_backend DF ui = Inr f \<longrightarrow> (\<forall>r\<in>set (rows f). sentiment_score_signed r \<noteq> None))
       \<and> (\<forall>f. results_backnew DF ui = Inr f \<longrightarrow> (\<forall>r\<in>set (rows f). sentiment_score_signed r \<noteq> None))
       \<and> (\<forall>resp. index fo DF rq = Inr resp \<longrightarrow> (\<forall>r\<in>set (table_rows resp). sentiment_score_signed r \<noteq> None))
       \<and> (\<forall>resp. index_app1 fo DF rq = Inr resp \<longrightarrow> (\<forall>r\<in>set (table_rows resp). sentiment_score_signed r \<noteq> None))"
proof -
  have a: "\<forall>f. filtered DF rq = Inr f \<longrightarrow> (\<forall>r\<in>set (rows f). sentiment_score_signed r \<noteq> None)"
    using filtered_in_range [OF _ assms] in_range_not_null by blast
  have b: "\<forall>f. filtered_app1 DF rq = Inr f \<longrightarrow> (\<forall>r\<in>set (rows f). sentiment_score_signed r \<noteq> None)"
    using filtered_app1_in_range [OF _ assms] in_range_not_null by blast
  have c: "\<forall>f. results_backend DF ui = Inr f \<longrightarrow> (\<forall>r\<in>set (rows f). sentiment_score_signed r \<noteq> None)"
    using filtered_backend_in_range [OF _ assms] in_range_not_null results_backend_rows by blast
  have d: "\<forall>f. results_backnew DF ui = Inr f \<longrightarrow> (\<forall>r\<in>set (rows f). sentiment_score_signed r \<noteq> None)"
    using filtered_backnew_in_range [OF _ assms] in_range_not_null results_backnew_rows by blast
  have e: "\<forall>resp. index fo DF rq = Inr resp \<longrightarrow> (\<forall>r\<in>set (table_rows resp). sentiment_score_signed r \<noteq> None)"
    using a by (auto dest!: index_table_rows in_set_takeD)
  have f: "\<forall>resp. index_app1 fo DF rq = Inr resp \<longrightarrow> (\<forall>r\<in>set (table_rows resp). sentiment_score_signed r \<noteq> None)"
    using b by (auto dest!: index_app1_table_rows in_set_takeD)
  from a b c d e f show ?thesis by blast
qed

theorem returned_rows_have_score_witness:
  "has_col ''sentiment_score_signed'' sample_DF
   \<and> filtered sample_DF no_filters = Inr (sample_DF\<lparr>rows := [row_c, row_b, row_a]\<rparr>)
   \<and> list_all (\<lambda>r. sentiment_score_signed r \<noteq> None) [row_c, row_b, row_a]"
proof -
  have h: "has_col ''sentiment_score_signed'' sample_DF" by code_simp
  have e: "filtered sample_DF no_filters = Inr (sample_DF\<lparr>rows := [row_c, row_b, row_a]\<rparr>)"
    by code_simp
  from returned_rows_have_score [OF h, of no_filters] e
  have "\<forall>r\<in>set (rows (sample_DF\<lparr>rows := [row_c, row_b, row_a]\<rparr>)). sentiment_score_signed r \<noteq> None"
    by blast
  then have "list_all (\<lambda>r. sentiment_score_signed r \<noteq> None) [row_c, row_b, row_a]" by simp
  with h e show ?thesis by simp
qed

subsection \<open>A request without filters\<close>

lemma select_cong: "(\<And>r. r \<in> set (rows f) \<Longrightarrow> p r = q r) \<Longrightarrow> select p f = select q f"
  by (simp add: select_def cong: filter_cong)

lemma sentiment_filter_global:
  assumes "set (rows f) \<subseteq> set (rows DF)" "has_col ''sentiment_score_signed'' DF"
  shows "sentiment_filter DF (MIN_SCORE DF) (MAX_SCORE DF) f
         = Inr (select (\<lambda>r. sentiment_score_signed r \<noteq> None) f)"
proof -
  have "select (in_range (column_min DF) (column_max DF)) f
        = select (\<lambda>r. sentiment_score_signed r \<noteq> None) f"
    using assms(1) by (intro select_cong in_range_global) auto
  with assms(2) show ?thesis by (simp add: sentiment_filter_def MIN_SCORE_def MAX_SCORE_def)
qed

lemma sentiment_filter_no_column:
  "\<not> has_col ''sentiment_score_signed'' DF \<Longrightarrow> sentiment_filter DF lo hi f = Inr f"
  by (simp add: sentiment_filter_def MIN_SCORE_def)

lemma summarise_total: "\<exists>s. summarise fo cs = Inr s"
  by (cases cs) (auto simp: summarise_def Let_def)

lemma compute_yearly_summary_total: "\<exists>s. compute_yearly_summary fo df y = Inr s"
  by (simp add: compute_yearly_summary_def Let_def summarise_total)

lemma compute_yearly_summary_app1_total: "\<exists>s. compute_yearly_summary_app1 fo df y = Inr s"
  by (simp add: compute_yearly_summary_app1_def Let_def summarise_total)

lemma sent_range_missing:
  "arg_sent_min rq = Missing \<Longrightarrow> arg_sent_max rq = Missing \<Longrightarrow>
   sent_range DF rq = (MIN_SCORE DF, MAX_SCORE DF)"
  by (auto simp: sent_range_def float_of_arg_def split: option.splits)

lemma sentiment_filter_default:
  "sentiment_filter DF (MIN_SCORE DF) (MAX_SCORE DF) DF
   = Inr (select (\<lambda>r. has_col ''sentiment_score_signed'' DF \<longrightarrow> sentiment_score_signed r \<noteq> None) DF)"
proof (cases "has_col ''sentiment_score_signed'' DF")
  case True
  then show ?thesis by (simp add: sentiment_filter_global)
next
  case False
  then show ?thesis by (simp add: sentiment_filter_no_column select_def)
qed

lemma filtered_unset:
  assumes y: "arg_year rq \<in> {None, Some [], Some ''all''}"
      and s: "arg_symbol rq \<in> {None, Some [], Some ''all''}"
      and k: "strip (args_get (arg_keyword rq) []) = []"
      and m: "arg_sent_min rq = Missing" "arg_sent_max rq = Missing"
  shows "filtered DF rq
         = Inr (date_sort (select (\<lambda>r. has_col ''sentiment_score_signed'' DF
                                        \<longrightarrow> sentiment_score_signed r \<noteq> None) DF))"
proof -
  from y have y': "blank_is_all (args_get (arg_year rq) ''all'') = ''all''"
    by (auto simp: blank_is_all_def args_get_def)
  from s have s': "blank_is_all (args_get (arg_symbol rq) ''all'') = ''all''"
    by (auto simp: blank_is_all_def args_get_def)
  show ?thesis
    by (simp add: filtered_def y' s' k sent_range_missing [OF m] year_filter_def
        symbol_filter_def copy_def sentiment_filter_default keyword_filter_def)
qed

lemma filtered_app1_unset:
  assumes y: "arg_year rq \<in> {None, Some [], Some ''all''}"
      and s: "arg_symbol rq \<in> {None, Some [], Some ''all''}"
      and k: "strip (args_get (arg_keyword rq) []) = []"
      and n: "strip (args_get (arg_news_id rq) []) = []"
      and m: "arg_sent_min rq = Missing" "arg_sent_max rq = Missing"
  shows "filtered_app1 DF rq
         = Inr (date_sort_app1 (select (\<lambda>r. has_col ''sentiment_score_signed'' DF
                                        \<longrightarrow> sentiment_score_signed r \<noteq> None) DF))"
proof -
  from y have y': "unset (args_get (arg_year rq) ''all'')"
    by (auto simp: unset_def args_get_def)
  from s have s': "unset (args_get (arg_symbol rq) ''all'')"
    by (auto simp: unset_def args_get_def)
  show ?thesis
    by (simp add: filtered_app1_def y' s' k n sent_range_missing [OF m] year_filter_app1_def
        symbol_filter_app1_def copy_def sentiment_filter_default keyword_filter_app1_def
        news_id_filter_app1_def)
qed

lemma filtered_dashboard_unset:
  assumes "year_box ui = None" "symbol_box ui = None"
      and "slider ui = (column_min df, column_max df)" "text_input ui = []"
  shows "filtered_backend df ui
         = Inr (select (\<lambda>r. has_col ''sentiment_score_signed'' df
                            \<longrightarrow> sentiment_score_signed r \<noteq> None) df)"
    and "filtered_backnew df ui
         = Inr (select (\<lambda>r. has_col ''sentiment_score_signed'' df
                            \<longrightarrow> sentiment_score_signed r \<noteq> None) df)"
proof -
  have r: "range_filter (sentiment_range df ui) df
           = select (\<lambda>r. has_col ''sentiment_score_signed'' df
                            \<longrightarrow> sentiment_score_signed r \<noteq> None) df"
  proof (cases "has_col ''sentiment_score_signed'' df")
    case True
    have "select (in_range (column_min df) (column_max df)) df
          = select (\<lambda>r. sentiment_score_signed r \<noteq> None) df"
      by (intro select_cong in_range_global) auto
    with True assms(3) show ?thesis by (simp add: range_filter_def sentiment_range_def)
  next
    case False
    then show ?thesis by (simp add: range_filter_def sentiment_range_def select_def)
  qed
  show "filtered_backend df ui
         = Inr (select (\<lambda>r. has_col ''sentiment_score_signed'' df
                            \<longrightarrow> sentiment_score_signed r \<noteq> None) df)"
    using assms r by (simp add: filtered_backend_def selected_year_of_def symbol_of_def copy_def)
  show "filtered_backnew df ui
         = Inr (select (\<lambda>r. has_col ''sentiment_score_signed'' df
                            \<longrightarrow> sentiment_score_signed r \<noteq> None) df)"
    using assms r
    by (simp add: filtered_backnew_def selected_year_of_def symbol_of_def copy_def keyword_filter_def)
qed

lemma date_sort_sorted:
  assumes "has_col ''Date'' f" "date_is_datetime f"
  shows "mset (rows (date_sort f)) = mset (rows f)" and "sorted_wrt date_ge (rows (date_sort f))"
  using assms by (simp_all add: date_sort_def sort_values_Date_desc_def mset_sort_desc sorted_sort_desc)

lemma date_sort_app1_sorted:
  assumes "has_col ''Date'' f"
  shows "mset (rows (date_sort_app1 f)) = mset (rows f)"
    and "sorted_wrt date_ge (rows (date_sort_app1 f))"
  using assms
  by (simp_all add: date_sort_app1_def sort_values_Date_desc_def mset_sort_desc sorted_sort_desc)

lemma index_unset:
  assumes "filtered DF rq = Inr f" "strip (args_get (arg_news_id rq) []) = []"
  shows "\<exists>resp. index fo DF rq = Inr resp"
  using assms compute_yearly_summary_total [of fo DF "blank_is_all (args_get (arg_year rq) ''all'')"]
  by (auto simp: index_def Let_def detail_def)

lemma index_app1_unset:
  assumes "filtered_app1 DF rq = Inr f" "strip (args_get (arg_news_id rq) []) = []"
  shows "\<exists>resp. index_app1 fo DF rq = Inr resp"
  using assms compute_yearly_summary_app1_total [of fo DF "args_get (arg_year rq) ''all''"]
  by (auto simp: index_app1_def Let_def detail_app1_def)

text \<open>
  Claim C1, as amended. On a table whose \<open>Date\<close> column is parsed, a request with every
  filter unset (year and symbol absent, blank or \<open>all\<close>, keyword and record id blank,
  no score bounds) gets the rows that have a score, or every row when the table has no
  score column: sorted by date descending with the missing dates last, counted in full,
  and cut to the first 200 for the table. The same holds in both request handlers and,
  with the side bar left as it starts, in both dashboard scripts (in \<open>backend.py\<close>
  provided the charts above the table do not raise).
\<close>

theorem unset_filters_keep_scored_rows:
  assumes d: "has_col ''Date'' DF" "date_is_datetime DF"
      and y: "arg_year rq \<in> {None, Some [], Some ''all''}"
      and s: "arg_symbol rq \<in> {None, Some [], Some ''all''}"
      and k: "strip (args_get (arg_keyword rq) []) = []"
      and n: "strip (args_get (arg_news_id rq) []) = []"
      and m: "arg_sent_min rq = Missing" "arg_sent_max rq = Missing"
      and u: "year_box ui = None" "symbol_box ui = None"
             "slider ui = (column_min DF, column_max DF)" "text_input ui = []"
  shows "(\<exists>resp srt. index fo DF rq = Inr resp
            \<and> mset srt = mset (filter (\<lambda>r. has_col ''sentiment_score_signed'' DF
                                        \<longrightarrow> sentiment_score_signed r \<noteq> None) (rows DF))
            \<and> sorted_wrt date_ge srt
            \<and> row_count resp = length srt \<and> table_rows resp = take 200 srt)
       \<and> (\<exists>resp srt. index_app1 fo DF rq = Inr resp
            \<and> mset srt = mset (filter (\<lambda>r. has_col ''sentiment_score_signed'' DF
                                        \<longrightarrow> sentiment_score_signed r \<noteq> None) (rows DF))
            \<and> sorted_wrt date_ge srt
            \<and> row_count resp = length srt \<and> table_rows resp = take 200 srt)
       \<and> (\<exists>f. results_backnew DF ui = Inr f
            \<and> mset (rows f) = mset (filter (\<lambda>r. has_col ''sentiment_score_signed'' DF
                                        \<longrightarrow> sentiment_score_signed r \<noteq> None) (rows DF))
            \<and> sorted_wrt date_ge (rows f)
            \<and> rows (table_dashboard f) = take 200 (rows f))
       \<and> ((\<exists>e. charts_backend DF ui = Inl e \<and> results_backend DF ui = Inl e)
          \<or> (\<exists>f. results_backend DF ui = Inr f
            \<and> mset (rows f) = mset (filter (\<lambda>r. has_col ''sentiment_score_signed'' DF
                                        \<longrightarrow> sentiment_score_signed r \<noteq> None) (rows DF))
            \<and> sorted_wrt date_ge (rows f)
            \<and> rows (table_dashboard f) = take 200 (rows f)))"
proof -
  let ?P = "\<lambda>r. has_col ''sentiment_score_signed'' DF \<longrightarrow> sentiment_score_signed r \<noteq> None"
  let ?g = "select ?P DF"
  have g: "has_col ''Date'' ?g" "date_is_datetime ?g" using d by simp_all
  have rg: "rows ?g = filter ?P (rows DF)" by simp
  have a: "\<exists>resp srt. index fo DF rq = Inr resp \<and> mset srt = mset (filter ?P (rows DF))
            \<and> sorted_wrt date_ge srt \<and> row_count resp = length srt \<and> table_rows resp = take 200 srt"
  proof -
    have f: "filtered DF rq = Inr (date_sort ?g)" by (rule filtered_unset [OF y s k m])
    from index_unset [OF f n] obtain resp where r: "index fo DF rq = Inr resp" by blast
    from index_table_rows [OF r] f
    have "row_count resp = length (rows (date_sort ?g))"
         "table_rows resp = take 200 (rows (date_sort ?g))" by auto
    with r date_sort_sorted [OF g] rg show ?thesis by metis
  qed
  have b: "\<exists>resp srt. index_app1 fo DF rq = Inr resp \<and> mset srt = mset (filter ?P (rows DF))
            \<and> sorted_wrt date_ge srt \<and> row_count resp = length srt \<and> table_rows resp = take 200 srt"
  proof -
    have f: "filtered_app1 DF rq = Inr (date_sort_app1 ?g)" by (rule filtered_app1_unset [OF y s k n m])
    from index_app1_unset [OF f n] obtain resp where r: "index_app1 fo DF rq = Inr resp" by blast
    from index_app1_table_rows [OF r] f
    have "row_count resp = length (rows (date_sort_app1 ?g))"
         "table_rows resp = take 200 (rows (date_sort_app1 ?g))" by auto
    with r date_sort_app1_sorted [OF g(1)] rg show ?thesis by metis
  qed
  have td: "\<And>f. rows (table_dashboard f) = take 200 (rows f)"
    by (simp add: table_dashboard_def head_def project_def)
  have c: "\<exists>f. results_backnew DF ui = Inr f \<and> mset (rows f) = mset (filter ?P (rows DF))
            \<and> sorted_wrt date_ge (rows f) \<and> rows (table_dashboard f) = take 200 (rows f)"
    using filtered_dashboard_unset(2) [OF u] date_sort_sorted [OF g] rg td
    by (simp add: results_backnew_def)
  have e: "(\<exists>e. charts_backend DF ui = Inl e \<and> results_backend DF ui = Inl e)
          \<or> (\<exists>f. results_backend DF ui = Inr f \<and> mset (rows f) = mset (filter ?P (rows DF))
            \<and> sorted_wrt date_ge (rows f) \<and> rows (table_dashboard f) = take 200 (rows f))"
  proof (cases "charts_backend DF ui")
    case (Inl e)
    then show ?thesis using filtered_dashboard_unset(1) [OF u] by (simp add: results_backend_def)
  next
    case (Inr x)
    then show ?thesis
      using filtered_dashboard_unset(1) [OF u] date_sort_sorted [OF g] rg td
      by (simp add: results_backend_def)
  qed
  from a b c e show ?thesis by blast
qed

theorem unset_filters_counterexample:
  "\<forall>fo. has_col ''Date'' sample_DF \<and> date_is_datetime sample_DF
   \<and> rows sample_DF = [row_a, row_b, row_c, row_d]
   \<and> map_sum id table_rows (index fo sample_DF no_filters) = Inr [row_c, row_b, row_a]
   \<and> map_sum id row_count (index fo sample_DF no_filters) = Inr 3
   \<and> row_d \<notin> set [row_c, row_b, row_a]"
proof (intro allI)
  fix fo
  show "has_col ''Date'' sample_DF \<and> date_is_datetime sample_DF
   \<and> rows sample_DF = [row_a, row_b, row_c, row_d]
   \<and> map_sum id table_rows (index fo sample_DF no_filters) = Inr [row_c, row_b, row_a]
   \<and> map_sum id row_count (index fo sample_DF no_filters) = Inr 3
   \<and> row_d \<notin> set [row_c, row_b, row_a]"
    by code_simp
qed


theorem unset_filters_keep_scored_rows_witness:
  "\<forall>fo. has_col ''Date'' sample_DF \<and> date_is_datetime sample_DF
   \<and> arg_year no_filters = None \<and> arg_symbol no_filters = None
   \<and> strip (args_get (arg_keyword no_filters) []) = []
   \<and> strip (args_get (arg_news_id no_filters) []) = []
   \<and> arg_sent_min no_filters = Missing \<and> arg_sent_max no_filters = Missing
   \<and> (\<exists>resp srt. index fo sample_DF no_filters = Inr resp
          \<and> mset srt = mset [row_a, row_b, row_c] \<and> sorted_wrt date_ge srt
          \<and> row_count resp = length srt \<and> table_rows resp = take 200 srt)"
proof (intro allI)
  fix fo
  have h: "has_col ''Date'' sample_DF" "date_is_datetime sample_DF"
          "arg_year no_filters \<in> {None, Some [], Some ''all''}"
          "arg_symbol no_filters \<in> {None, Some [], Some ''all''}"
          "strip (args_get (arg_keyword no_filters) []) = []"
          "strip (args_get (arg_news_id no_filters) []) = []"
          "arg_sent_min no_filters = Missing" "arg_sent_max no_filters = Missing"
    by code_simp+
  have u: "year_box (default_sidebar sample_DF) = None" "symbol_box (default_sidebar sample_DF) = None"
          "slider (default_sidebar sample_DF) = (column_min sample_DF, column_max sample_DF)"
          "text_input (default_sidebar sample_DF) = []"
    by (simp_all add: default_sidebar_def)
  have r: "filter (\<lambda>r. has_col ''sentiment_score_signed'' sample_DF \<longrightarrow> sentiment_score_signed r \<noteq> None)
             (rows sample_DF) = [row_a, row_b, row_c]"
    by code_simp
  have n: "arg_year no_filters = None" "arg_symbol no_filters = None" by code_simp+
  from unset_filters_keep_scored_rows [OF h u]
  have "\<exists>resp srt. index fo sample_DF no_filters = Inr resp
          \<and> mset srt = mset [row_a, row_b, row_c] \<and> sorted_wrt date_ge srt
          \<and> row_count resp = length srt \<and> table_rows resp = take 200 srt"
    unfolding r by blast
  with h n show "has_col ''Date'' sample_DF \<and> date_is_datetime sample_DF
   \<and> arg_year no_filters = None \<and> arg_symbol no_filters = None
   \<and> strip (args_get (arg_keyword no_filters) []) = []
   \<and> strip (args_get (arg_news_id no_filters) []) = []
   \<and> arg_sent_min no_filters = Missing \<and> arg_sent_max no_filters = Missing
   \<and> (\<exists>resp srt. index fo sample_DF no_filters = Inr resp
          \<and> mset srt = mset [row_a, row_b, row_c] \<and> sorted_wrt date_ge srt
          \<and> row_count resp = length srt \<and> table_rows resp = take 200 srt)" by simp
qed

subsection \<open>The range step on its own\<close>

lemma filter_all_iff: "select p f = f \<longleftrightarrow> (\<forall>r\<in>set (rows f). p r)"
proof
  assume "select p f = f"
  then have "rows (select p f) = rows f" by simp
  then show "\<forall>r\<in>set (rows f). p r" by (simp add: filter_id_conv)
next
  assume "\<forall>r\<in>set (rows f). p r"
  then have "filter p (rows f) = rows f" by (simp add: filter_id_conv)
  then show "select p f = f" by (simp add: select_def)
qed

lemma in_range_bounds:
  "in_range lo hi r \<Longrightarrow> \<exists>a s b. lo = Some a \<and> hi = Some b \<and> sentiment_score_signed r = Some s \<and> a \<le> s \<and> s \<le> b"
  by (auto simp: in_range_def fle_def fge_def split: option.splits)

text \<open>
  Claim C2, as amended. When the table has the score column, the range step with the
  table's global minimum and maximum as bounds keeps exactly the rows that have a
  score; it returns the rows it was given if and only if none of them lacks a score.
  For whatever bounds the request carries, every row the pipeline returns has a score
  between them, both ends included. The range step of the dashboard scripts behaves
  the same.
\<close>

theorem sentiment_range_keeps_scored_rows:
  assumes c: "has_col ''sentiment_score_signed'' DF" and sub: "set (rows f) \<subseteq> set (rows DF)"
  shows "sentiment_filter DF (MIN_SCORE DF) (MAX_SCORE DF) f
           = Inr (select (\<lambda>r. sentiment_score_signed r \<noteq> None) f)
       \<and> (sentiment_filter DF (MIN_SCORE DF) (MAX_SCORE DF) f = Inr f
            \<longleftrightarrow> (\<forall>r\<in>set (rows f). sentiment_score_signed r \<noteq> None))
       \<and> range_filter (Some (column_min DF, column_max DF)) f
           = select (\<lambda>r. sentiment_score_signed r \<noteq> None) f
       \<and> (\<forall>g. sentiment_filter DF lo hi f = Inr g \<longrightarrow>
            (\<forall>r\<in>set (rows g). \<exists>a s b. lo = Some (Some a) \<and> hi = Some (Some b)
                \<and> sentiment_score_signed r = Some s \<and> a \<le> s \<and> s \<le> b))
       \<and> (\<forall>g. filtered DF rq = Inr g \<longrightarrow>
            (\<forall>r\<in>set (rows g). \<exists>a s b. sent_range DF rq = (Some (Some a), Some (Some b))
                \<and> sentiment_score_signed r = Some s \<and> a \<le> s \<and> s \<le> b))
       \<and> (\<forall>g. filtered_app1 DF rq = Inr g \<longrightarrow>
            (\<forall>r\<in>set (rows g). \<exists>a s b. sent_range DF rq = (Some (Some a), Some (Some b))
                \<and> sentiment_score_signed r = Some s \<and> a \<le> s \<and> s \<le> b))"
proof -
  have 1: "sentiment_filter DF (MIN_SCORE DF) (MAX_SCORE DF) f
           = Inr (select (\<lambda>r. sentiment_score_signed r \<noteq> None) f)"
    by (rule sentiment_filter_global [OF sub c])
  have 2: "sentiment_filter DF (MIN_SCORE DF) (MAX_SCORE DF) f = Inr f
            \<longleftrightarrow> (\<forall>r\<in>set (rows f). sentiment_score_signed r \<noteq> None)"
    unfolding 1 using filter_all_iff [of "\<lambda>r. sentiment_score_signed r \<noteq> None" f] by simp
  have 3: "range_filter (Some (column_min DF, column_max DF)) f
           = select (\<lambda>r. sentiment_score_signed r \<noteq> None) f"
  proof -
    have "select (in_range (column_min DF) (column_max DF)) f
          = select (\<lambda>r. sentiment_score_signed r \<noteq> None) f"
      using sub by (intro select_cong in_range_global) auto
    then show ?thesis by (simp add: range_filter_def)
  qed
  have ms: "MIN_SCORE DF \<noteq> None" using c by (simp add: MIN_SCORE_def)
  have 4: "\<forall>g. sentiment_filter DF lo hi f = Inr g \<longrightarrow>
            (\<forall>r\<in>set (rows g). \<exists>a s b. lo = Some (Some a) \<and> hi = Some (Some b)
                \<and> sentiment_score_signed r = Some s \<and> a \<le> s \<and> s \<le> b)"
  proof (intro allI impI ballI)
    fix g r assume g: "sentiment_filter DF lo hi f = Inr g" and r: "r \<in> set (rows g)"
    from rows_sentiment_filter [OF g ms] obtain a b where
      "lo = Some a" "hi = Some b" "rows g = filter (in_range a b) (rows f)" by blast
    with r in_range_bounds [of a b r]
    show "\<exists>a s b. lo = Some (Some a) \<and> hi = Some (Some b)
            \<and> sentiment_score_signed r = Some s \<and> a \<le> s \<and> s \<le> b"
      by auto
  qed
  have 5: "\<forall>g. filtered DF rq = Inr g \<longrightarrow>
            (\<forall>r\<in>set (rows g). \<exists>a s b. sent_range DF rq = (Some (Some a), Some (Some b))
                \<and> sentiment_score_signed r = Some s \<and> a \<le> s \<and> s \<le> b)"
    using filtered_in_range [OF _ c] in_range_bounds by blast
  have 6: "\<forall>g. filtered_app1 DF rq = Inr g \<longrightarrow>
            (\<forall>r\<in>set (rows g). \<exists>a s b. sent_range DF rq = (Some (Some a), Some (Some b))
                \<and> sentiment_score_signed r = Some s \<and> a \<le> s \<and> s \<le> b)"
    using filtered_app1_in_range [OF _ c] in_range_bounds by blast
  from 1 2 3 4 5 6 show ?thesis by blast
qed

theorem sentiment_range_counterexample:
  "has_col ''sentiment_score_signed'' sample_DF
   \<and> MIN_SCORE sample_DF = Some (Some (- 3 / 10)) \<and> MAX_SCORE sample_DF = Some (Some (4 / 5))
   \<and> sentiment_filter sample_DF (MIN_SCORE sample_DF) (MAX_SCORE sample_DF) sample_DF
       = Inr (sample_DF\<lparr>rows := [row_a, row_b, row_c]\<rparr>)
   \<and> rows sample_DF = [row_a, row_b, row_c, row_d]
   \<and> sample_DF\<lparr>rows := [row_a, row_b, row_c]\<rparr> \<noteq> sample_DF"
  by code_simp

theorem sentiment_range_keeps_scored_rows_witness:
  "has_col ''sentiment_score_signed'' sample_DF
   \<and> sentiment_filter sample_DF (MIN_SCORE sample_DF) (MAX_SCORE sample_DF) sample_DF
       = Inr (sample_DF\<lparr>rows := [row_a, row_b, row_c]\<rparr>)
   \<and> list_all (\<lambda>r. \<exists>s. sentiment_score_signed r = Some s \<and> 0 \<le> s \<and> s \<le> 1) [row_c, row_a]
   \<and> filtered sample_DF (no_filters\<lparr>arg_sent_min := Parsed (Some 0), arg_sent_max := Parsed (Some 1)\<rparr>)
       = Inr (sample_DF\<lparr>rows := [row_c, row_a]\<rparr>)"
proof -
  let ?rq = "no_filters\<lparr>arg_sent_min := Parsed (Some 0), arg_sent_max := Parsed (Some 1)\<rparr>"
  have h: "has_col ''sentiment_score_signed'' sample_DF" by code_simp
  have s: "set (rows sample_DF) \<subseteq> set (rows sample_DF)" by simp
  have e: "select (\<lambda>r. sentiment_score_signed r \<noteq> None) sample_DF
           = sample_DF\<lparr>rows := [row_a, row_b, row_c]\<rparr>" by code_simp
  have f: "filtered sample_DF ?rq = Inr (sample_DF\<lparr>rows := [row_c, row_a]\<rparr>)" by code_simp
  have sr: "sent_range sample_DF ?rq = (Some (Some 0), Some (Some 1))" by code_simp
  note t = sentiment_range_keeps_scored_rows [OF h s, of _ _ ?rq]
  from t have 1: "sentiment_filter sample_DF (MIN_SCORE sample_DF) (MAX_SCORE sample_DF) sample_DF
       = Inr (sample_DF\<lparr>rows := [row_a, row_b, row_c]\<rparr>)"
    unfolding e by blast
  from t f have "\<forall>r\<in>set (rows (sample_DF\<lparr>rows := [row_c, row_a]\<rparr>)).
      \<exists>a s b. sent_range sample_DF ?rq = (Some (Some a), Some (Some b))
                \<and> sentiment_score_signed r = Some s \<and> a \<le> s \<and> s \<le> b"
    by blast
  then have 2: "list_all (\<lambda>r. \<exists>s. sentiment_score_signed r = Some s \<and> 0 \<le> s \<and> s \<le> 1) [row_c, row_a]"
    unfolding sr by simp
  from h 1 2 f show ?thesis by simp
qed

subsection \<open>A year that cannot be read\<close>

text \<open>
  \<open>int\<close> refuses a year behind a separator that \<open>str.strip\<close> would remove, and reads
  one between blanks, no-break spaces and underscores.
\<close>

lemma py_int_examples:
  "py_int (char_of (28::nat) # ''2020'') = None
   \<and> py_int (''2020'' @ [char_of (160::nat)]) = Some 2020
   \<and> py_int '' +1_000 '' = Some 1000
   \<and> py_int ''2_'' = None \<and> py_int ''- 2'' = None \<and> py_int ''20x'' = None"
  by code_simp

lemma year_filter_unparsable: "py_int y = None \<Longrightarrow> year_filter (blank_is_all y) f = f"
  by (auto simp: year_filter_def blank_is_all_def)

lemma year_filter_app1_unparsable: "py_int y = None \<Longrightarrow> year_filter_app1 y f = f"
  by (auto simp: year_filter_app1_def)

lemma py_int_all: "py_int ''all'' = None"
  by code_simp

lemma sent_range_year [simp]: "sent_range DF (rq\<lparr>arg_year := y\<rparr>) = sent_range DF rq"
  by (simp add: sent_range_def split: option.splits)

lemma filtered_unparsable:
  assumes "py_int y = None"
  shows "filtered DF (rq\<lparr>arg_year := Some y\<rparr>) = filtered DF (rq\<lparr>arg_year := None\<rparr>)"
  using year_filter_unparsable [OF assms] year_filter_unparsable [OF py_int_all]
  by (simp add: filtered_def args_get_def blank_is_all_def)

lemma filtered_app1_unparsable:
  assumes "py_int y = None"
  shows "filtered_app1 DF (rq\<lparr>arg_year := Some y\<rparr>) = filtered_app1 DF (rq\<lparr>arg_year := None\<rparr>)"
  using year_filter_app1_unparsable [OF assms] year_filter_app1_unparsable [OF py_int_all]
  by (simp add: filtered_app1_def args_get_def)

lemma summary_unparsable:
  "py_int y = None \<Longrightarrow> compute_yearly_summary fo DF (blank_is_all y) = compute_yearly_summary fo DF ''all''"
  by (simp add: compute_yearly_summary_def blank_is_all_def)

lemma summary_app1_unparsable:
  "py_int y = None \<Longrightarrow> compute_yearly_summary_app1 fo DF y = compute_yearly_summary_app1 fo DF ''all''"
  by (simp add: compute_yearly_summary_app1_def unset_def)

text \<open>
  Claim C6. A requested year that \<open>int\<close> cannot read is skipped without an error: both
  request handlers filter exactly as they do when the request carries no year, the
  yearly summary is the one over all years, and the whole response is the response to
  the request without a year except for the year text it echoes and the title built
  from it. If that request raises, so does this one, with the same exception.
\<close>

theorem unparsable_year_is_skipped:
  assumes "py_int y = None"
  shows "filtered DF (rq\<lparr>arg_year := Some y\<rparr>) = filtered DF (rq\<lparr>arg_year := None\<rparr>)
       \<and> filtered_app1 DF (rq\<lparr>arg_year := Some y\<rparr>) = filtered_app1 DF (rq\<lparr>arg_year := None\<rparr>)
       \<and> index fo DF (rq\<lparr>arg_year := Some y\<rparr>)
           = map_sum id
               (\<lambda>r. r\<lparr>selected_year := blank_is_all y,
                      summary_title := (if blank_is_all y = ''all'' then ''Overall Trend for All Years''
                                        else ''Overall Trend for '' @ blank_is_all y)\<rparr>)
               (index fo DF (rq\<lparr>arg_year := None\<rparr>))
       \<and> index_app1 fo DF (rq\<lparr>arg_year := Some y\<rparr>)
           = map_sum id
               (\<lambda>r. r\<lparr>selected_year := y,
                      summary_title := (if y = ''all'' then ''Overall Trend for All Years''
                                        else ''Overall Trend for '' @ y)\<rparr>)
               (index_app1 fo DF (rq\<lparr>arg_year := None\<rparr>))"
proof -
  note f = filtered_unparsable [OF assms, of DF rq]
  note g = filtered_app1_unparsable [OF assms, of DF rq]
  have i: "index fo DF (rq\<lparr>arg_year := Some y\<rparr>)
           = map_sum id
               (\<lambda>r. r\<lparr>selected_year := blank_is_all y,
                      summary_title := (if blank_is_all y = ''all'' then ''Overall Trend for All Years''
                                        else ''Overall Trend for '' @ blank_is_all y)\<rparr>)
               (index fo DF (rq\<lparr>arg_year := None\<rparr>))"
    unfolding index_def f
    by (simp add: Let_def args_get_def summary_unparsable [OF assms] split: sum.splits)
       (simp add: blank_is_all_def)
  have j: "index_app1 fo DF (rq\<lparr>arg_year := Some y\<rparr>)
           = map_sum id
               (\<lambda>r. r\<lparr>selected_year := y,
                      summary_title := (if y = ''all'' then ''Overall Trend for All Years''
                                        else ''Overall Trend for '' @ y)\<rparr>)
               (index_app1 fo DF (rq\<lparr>arg_year := None\<rparr>))"
    unfolding index_app1_def g
    by (simp add: Let_def args_get_def summary_app1_unparsable [OF assms] split: sum.splits)
  from f g i j show ?thesis by blast
qed


theorem unparsable_year_is_skipped_witness:
  "\<forall>fo. py_int ''20x'' = None
   \<and> filtered sample_DF (no_filters\<lparr>arg_year := Some ''20x''\<rparr>)
       = Inr (sample_DF\<lparr>rows := [row_c, row_b, row_a]\<rparr>)
   \<and> map_sum id table_rows (index fo sample_DF (no_filters\<lparr>arg_year := Some ''20x''\<rparr>))
       = Inr [row_c, row_b, row_a]"
proof (intro allI)
  fix fo
  have h: "py_int ''20x'' = None" by code_simp
  have e: "filtered sample_DF (no_filters\<lparr>arg_year := None\<rparr>)
           = Inr (sample_DF\<lparr>rows := [row_c, row_b, row_a]\<rparr>)" by code_simp
  have i: "map_sum id table_rows (index fo sample_DF (no_filters\<lparr>arg_year := None\<rparr>))
           = Inr [row_c, row_b, row_a]" by code_simp
  note t = unparsable_year_is_skipped [OF h, of sample_DF no_filters]
  from t e have 1: "filtered sample_DF (no_filters\<lparr>arg_year := Some ''20x''\<rparr>)
       = Inr (sample_DF\<lparr>rows := [row_c, row_b, row_a]\<rparr>)" by simp
  from t have "index fo sample_DF (no_filters\<lparr>arg_year := Some ''20x''\<rparr>)
           = map_sum id
               (\<lambda>r. r\<lparr>selected_year := blank_is_all ''20x'',
                      summary_title := (if blank_is_all ''20x'' = ''all'' then ''Overall Trend for All Years''
                                        else ''Overall Trend for '' @ blank_is_all ''20x'')\<rparr>)
               (index fo sample_DF (no_filters\<lparr>arg_year := None\<rparr>))" by blast
  then have 2: "map_sum id table_rows (index fo sample_DF (no_filters\<lparr>arg_year := Some ''20x''\<rparr>))
       = Inr [row_c, row_b, row_a]"
    using i by (cases "index fo sample_DF (no_filters\<lparr>arg_year := None\<rparr>)") auto
  from h 1 2 show "py_int ''20x'' = None
   \<and> filtered sample_DF (no_filters\<lparr>arg_year := Some ''20x''\<rparr>)
       = Inr (sample_DF\<lparr>rows := [row_c, row_b, row_a]\<rparr>)
   \<and> map_sum id table_rows (index fo sample_DF (no_filters\<lparr>arg_year := Some ''20x''\<rparr>))
       = Inr [row_c, row_b, row_a]" by simp
qed

subsection \<open>The yearly summary\<close>

lemma summarise_Nil: "summarise fo [] = Inr empty_summary"
  by (simp add: summarise_def)

lemma value_counts_no_rows: "value_counts [] = []"
  by (simp add: value_counts_def List.map_filter_def first_seen_def sort_values_desc_def)

text \<open>
  Claim C7. When the table has no label column, or no rows, or no row of the requested
  year, \<open>compute_yearly_summary\<close> returns the empty summary (total 0, no dominant label,
  no percentage, no breakdown) as an ordinary result, in both request handlers.
\<close>

theorem empty_summary_when_nothing_to_count:
  assumes "\<not> has_col ''sentiment_label'' df \<or> rows df = []
           \<or> (has_col ''Year'' df \<and> py_int y = Some n \<and> (\<forall>r\<in>set (rows df). Year r \<noteq> Some n))"
  shows "compute_yearly_summary fo df y = Inr empty_summary
       \<and> compute_yearly_summary_app1 fo df y = Inr empty_summary"
proof -
  have "py_int [] = None" by (simp add: py_int_def int_strip_def)
  with py_int_all have na: "py_int y = Some n \<Longrightarrow> y \<noteq> ''all'' \<and> y \<noteq> []"
    by auto
  have fe: "(\<forall>r\<in>set (rows df). Year r \<noteq> Some n) \<Longrightarrow> filter (\<lambda>r. Year r = Some n) (rows df) = []"
    by (simp add: filter_empty_conv)
  from assms show ?thesis
  proof (elim disjE)
    assume "\<not> has_col ''sentiment_label'' df"
    then show ?thesis
      by (simp add: compute_yearly_summary_def compute_yearly_summary_app1_def copy_def Let_def
          split: option.splits)
  next
    assume "rows df = []"
    then show ?thesis
      by (simp add: compute_yearly_summary_def compute_yearly_summary_app1_def copy_def Let_def
          empty_def split: option.splits)
  next
    assume a: "has_col ''Year'' df \<and> py_int y = Some n \<and> (\<forall>r\<in>set (rows df). Year r \<noteq> Some n)"
    with na fe show ?thesis
      by (simp add: compute_yearly_summary_def compute_yearly_summary_app1_def Let_def
          empty_def unset_def)
  qed
qed

theorem empty_summary_when_nothing_to_count_witness:
  "\<forall>fo. has_col ''Year'' sample_DF \<and> py_int ''1999'' = Some 1999
   \<and> list_all (\<lambda>r. Year r \<noteq> Some 1999) (rows sample_DF)
   \<and> compute_yearly_summary fo sample_DF ''1999''
       = Inr \<lparr>total_articles = 0, dominant_label = None, dominant_pct = None, summary_rows = []\<rparr>
   \<and> compute_yearly_summary_app1 fo sample_DF ''1999''
       = Inr \<lparr>total_articles = 0, dominant_label = None, dominant_pct = None, summary_rows = []\<rparr>"
proof (intro allI)
  fix fo
  have h: "has_col ''Year'' sample_DF" "py_int ''1999'' = Some 1999"
          "list_all (\<lambda>r. Year r \<noteq> Some 1999) (rows sample_DF)"
    by code_simp+
  then have "\<not> has_col ''sentiment_label'' sample_DF \<or> rows sample_DF = []
           \<or> (has_col ''Year'' sample_DF \<and> py_int ''1999'' = Some 1999
               \<and> (\<forall>r\<in>set (rows sample_DF). Year r \<noteq> Some 1999))"
    by (simp add: list_all_iff)
  from empty_summary_when_nothing_to_count [OF this] h show "has_col ''Year'' sample_DF \<and> py_int ''1999'' = Some 1999
   \<and> list_all (\<lambda>r. Year r \<noteq> Some 1999) (rows sample_DF)
   \<and> compute_yearly_summary fo sample_DF ''1999''
       = Inr \<lparr>total_articles = 0, dominant_label = None, dominant_pct = None, summary_rows = []\<rparr>
   \<and> compute_yearly_summary_app1 fo sample_DF ''1999''
       = Inr \<lparr>total_articles = 0, dominant_label = None, dominant_pct = None, summary_rows = []\<rparr>"
    by (simp add: empty_summary_def)
qed

lemma index_summary:
  "index fo DF rq = Inr r \<Longrightarrow>
   compute_yearly_summary fo DF (blank_is_all (args_get (arg_year rq) ''all'')) = Inr (yearly_summary r)"
  by (auto simp: index_def Let_def split: sum.splits)

lemma index_app1_summary:
  "index_app1 fo DF rq = Inr r \<Longrightarrow>
   compute_yearly_summary_app1 fo DF (args_get (arg_year rq) ''all'') = Inr (yearly_summary r)"
  by (auto simp: index_app1_def Let_def split: sum.splits)

text \<open>
  Claim C4. The yearly summary of a response is \<open>compute_yearly_summary\<close> of the whole
  table and the requested year. Two requests with the same year that both get a
  response therefore get the same summary, whatever their symbol, score bounds,
  keyword and record id are; this holds for both request handlers.
\<close>

theorem yearly_summary_depends_on_year_only:
  assumes "arg_year rq1 = arg_year rq2"
  shows "(\<forall>r1 r2. index fo DF rq1 = Inr r1 \<longrightarrow> index fo DF rq2 = Inr r2 \<longrightarrow>
            yearly_summary r1 = yearly_summary r2
            \<and> compute_yearly_summary fo DF (blank_is_all (args_get (arg_year rq1) ''all''))
                = Inr (yearly_summary r1))
       \<and> (\<forall>r1 r2. index_app1 fo DF rq1 = Inr r1 \<longrightarrow> index_app1 fo DF rq2 = Inr r2 \<longrightarrow>
            yearly_summary r1 = yearly_summary r2
            \<and> compute_yearly_summary_app1 fo DF (args_get (arg_year rq1) ''all'')
                = Inr (yearly_summary r1))"
proof -
  have a: "\<And>r1 r2. index fo DF rq1 = Inr r1 \<Longrightarrow> index fo DF rq2 = Inr r2 \<Longrightarrow>
            yearly_summary r1 = yearly_summary r2"
    using assms by (auto dest!: index_summary)
  have b: "\<And>r1 r2. index_app1 fo DF rq1 = Inr r1 \<Longrightarrow> index_app1 fo DF rq2 = Inr r2 \<Longrightarrow>
            yearly_summary r1 = yearly_summary r2"
    using assms by (auto dest!: index_app1_summary)
  from a b index_summary index_app1_summary show ?thesis by blast
qed

theorem yearly_summary_depends_on_year_only_witness:
  "\<forall>fo. arg_year narrow_request = arg_year year_request
   \<and> map_sum id row_count (index fo sample_DF narrow_request) = Inr 1
   \<and> map_sum id row_count (index fo sample_DF year_request) = Inr 2
   \<and> map_sum id yearly_summary (index fo sample_DF narrow_request)
       = map_sum id yearly_summary (index fo sample_DF year_request)"
proof (intro allI)
  fix fo
  have h: "arg_year narrow_request = arg_year year_request" by code_simp
  have c1: "map_sum id row_count (index fo sample_DF narrow_request) = Inr 1" by code_simp
  have c2: "map_sum id row_count (index fo sample_DF year_request) = Inr 2" by code_simp
  from c1 obtain r1 where r1: "index fo sample_DF narrow_request = Inr r1"
    by (cases "index fo sample_DF narrow_request") auto
  from c2 obtain r2 where r2: "index fo sample_DF year_request = Inr r2"
    by (cases "index fo sample_DF year_request") auto
  from yearly_summary_depends_on_year_only [OF h, where DF = sample_DF and fo = fo] r1 r2
  have "yearly_summary r1 = yearly_summary r2" by blast
  with r1 r2 have "map_sum id yearly_summary (index fo sample_DF narrow_request)
       = map_sum id yearly_summary (index fo sample_DF year_request)" by simp
  with h c1 c2 show "arg_year narrow_request = arg_year year_request
   \<and> map_sum id row_count (index fo sample_DF narrow_request) = Inr 1
   \<and> map_sum id row_count (index fo sample_DF year_request) = Inr 2
   \<and> map_sum id yearly_summary (index fo sample_DF narrow_request)
       = map_sum id yearly_summary (index fo sample_DF year_request)" by simp
qed

subsection \<open>The symbol filter\<close>

lemma code_char_of: "n < 256 \<Longrightarrow> code (char_of n) = n"
  by (simp add: code_def)

lemma code_lt_256: "code c < 256"
  by (simp add: code_def)

lemma is_space_upper_char: "is_space (upper_char c) = is_space c"
  using code_lt_256 [of c]
  by (auto simp: upper_char_def is_space_def is_lower_def code_char_of)

lemma upper_char_idem: "upper_char (upper_char c) = upper_char c"
  using code_lt_256 [of c]
  by (auto simp: upper_char_def is_lower_def code_char_of)

lemma upper_idem: "upper (upper s) = upper s"
  by (simp add: upper_def upper_char_idem)

lemma strip_upper: "strip (upper s) = upper (strip s)"
proof -
  have c: "is_space \<circ> upper_char = is_space" by (rule ext) (simp add: is_space_upper_char)
  show ?thesis
    by (simp add: strip_def upper_def dropWhile_map rev_map c)
qed

lemma last_dropWhile: "dropWhile P xs \<noteq> [] \<Longrightarrow> last (dropWhile P xs) = last xs"
  by (induction xs) (auto split: if_splits)

lemma strip_idem: "strip (strip s) = strip s"
proof -
  let ?t = "dropWhile is_space s"
  let ?u = "dropWhile is_space (rev ?t)"
  have "dropWhile is_space (rev ?u) = rev ?u"
  proof (cases "?u = []")
    case True
    then show ?thesis by (metis dropWhile.simps(1) rev.simps(1))
  next
    case False
    then have "rev ?t \<noteq> []" by (metis dropWhile.simps(1))
    then have t: "?t \<noteq> []" by simp
    from False have "last ?u = last (rev ?t)" by (rule last_dropWhile)
    also have "\<dots> = hd ?t" using t by (simp add: last_rev)
    finally have "hd (rev ?u) = hd ?t" using False by (simp add: hd_rev)
    moreover have "\<not> is_space (hd ?t)" using t by (rule hd_dropWhile)
    ultimately show ?thesis using False by (simp add: dropWhile_eq_self_iff)
  qed
  then show ?thesis by (simp add: strip_def)
qed

lemma normalize_symbol_idem: "normalize_symbol (normalize_symbol s) = normalize_symbol s"
  by (simp add: normalize_symbol_def strip_upper strip_idem upper_idem)

lemma filtered_symbol:
  assumes f: "filtered DF rq = Inr f" and c: "has_col ''Stock_symbol'' DF"
      and s: "arg_symbol rq = Some s" "s \<noteq> []" "s \<noteq> ''all''" and r: "r \<in> set (rows f)"
  shows "Stock_symbol r = Some s"
proof -
  obtain lo hi where sr: "sent_range DF rq = (lo, hi)" by (cases "sent_range DF rq")
  let ?f1 = "year_filter (blank_is_all (args_get (arg_year rq) ''all'')) (copy DF)"
  have c1: "has_col ''Stock_symbol'' ?f1"
    using c by (auto simp: year_filter_def copy_def split: option.splits)
  from f sr s obtain f3 f4 where
    f3: "sentiment_filter DF lo hi (symbol_filter s ?f1) = Inr f3" and
    f4: "keyword_filter (strip (args_get (arg_keyword rq) [])) f3 = Inr f4" and
    ff: "f = date_sort f4"
    by (auto simp: filtered_def Let_def args_get_def blank_is_all_def split: sum.splits)
  from f3 have "set (rows f3) \<subseteq> set (rows (symbol_filter s ?f1))"
    by (auto simp: sentiment_filter_def split: if_splits option.splits)
  moreover from r ff rows_keyword_filter [OF f4] have "r \<in> set (rows f3)"
    by (auto simp: rows_date_sort)
  ultimately have "r \<in> set (rows (symbol_filter s ?f1))" by blast
  with c1 s show ?thesis by (simp add: symbol_filter_def)
qed

lemma filtered_app1_symbol:
  assumes f: "filtered_app1 DF rq = Inr f"
      and s: "arg_symbol rq = Some s" "s \<noteq> []" "s \<noteq> ''all''" and r: "r \<in> set (rows f)"
  shows "Stock_symbol r = Some (normalize_symbol s)"
proof -
  obtain lo hi where sr: "sent_range DF rq = (lo, hi)" by (cases "sent_range DF rq")
  let ?f1 = "year_filter_app1 (args_get (arg_year rq) ''all'') (copy DF)"
  from f sr s obtain f2 f3 f4 f5 where
    f2: "symbol_filter_app1 s ?f1 = Inr f2" and
    f3: "sentiment_filter DF lo hi f2 = Inr f3" and
    f4: "keyword_filter_app1 (strip (args_get (arg_keyword rq) [])) f3 = Inr f4" and
    f5: "news_id_filter_app1 (strip (args_get (arg_news_id rq) [])) f4 = Inr f5" and
    ff: "f = date_sort_app1 f5"
    by (auto simp: filtered_app1_def Let_def args_get_def split: sum.splits)
  from f3 have "set (rows f3) \<subseteq> set (rows f2)"
    by (auto simp: sentiment_filter_def split: if_splits option.splits)
  moreover from r ff rows_keyword_filter_app1 [OF f4] rows_news_id_filter_app1 [OF f5]
  have "r \<in> set (rows f3)" by (auto simp: rows_date_sort_app1)
  ultimately have "r \<in> set (rows f2)" by blast
  with f2 s show ?thesis by (auto simp: symbol_filter_app1_def unset_def split: if_splits)
qed

text \<open>
  Claim C5. For a requested symbol that is neither blank nor \<open>all\<close>, every row the
  pipeline returns carries a symbol whose normalised form (trimmed, upper-cased) is the
  normalised form of the request. \<open>flask/app.py\<close> compares the stored symbol with the
  request as typed, so there the two are equal outright; the statement is about a table
  that has the symbol column, since without it that handler skips the step.
  \<open>flask2/app1.py\<close> compares the stored symbol with the normalised request.
\<close>

theorem symbol_filter_exact:
  assumes "arg_symbol rq = Some s" "s \<noteq> []" "s \<noteq> ''all''"
  shows "(has_col ''Stock_symbol'' DF \<longrightarrow>
            (\<forall>f. filtered DF rq = Inr f \<longrightarrow>
               (\<forall>r\<in>set (rows f). \<exists>t. Stock_symbol r = Some t \<and> t = s
                   \<and> normalize_symbol t = normalize_symbol s)))
       \<and> (\<forall>f. filtered_app1 DF rq = Inr f \<longrightarrow>
               (\<forall>r\<in>set (rows f). \<exists>t. Stock_symbol r = Some t \<and> t = normalize_symbol s
                   \<and> normalize_symbol t = normalize_symbol s))"
  using filtered_symbol [OF _ _ assms] filtered_app1_symbol [OF _ assms] normalize_symbol_idem
  by auto

theorem symbol_filter_exact_witness:
  "arg_symbol symbol_request = Some '' aaa'' \<and> normalize_symbol '' aaa'' = ''AAA''
   \<and> filtered_app1 sample_DF symbol_request = Inr (sample_DF\<lparr>rows := [row_c, row_a]\<rparr>)
   \<and> list_all (\<lambda>r. Stock_symbol r = Some ''AAA'') [row_c, row_a]"
proof -
  have h: "arg_symbol symbol_request = Some '' aaa''" "'' aaa'' \<noteq> []" "'' aaa'' \<noteq> ''all''"
    by code_simp+
  have n: "normalize_symbol '' aaa'' = ''AAA''" by code_simp
  have e: "filtered_app1 sample_DF symbol_request = Inr (sample_DF\<lparr>rows := [row_c, row_a]\<rparr>)"
    by code_simp
  from symbol_filter_exact [OF h, of sample_DF] e
  have "\<forall>r\<in>set (rows (sample_DF\<lparr>rows := [row_c, row_a]\<rparr>)).
          \<exists>t. Stock_symbol r = Some t \<and> t = normalize_symbol '' aaa''
              \<and> normalize_symbol t = normalize_symbol '' aaa''"
    by blast
  then have "list_all (\<lambda>r. Stock_symbol r = Some ''AAA'') [row_c, row_a]"
    unfolding n by simp
  with h n e show ?thesis by simp
qed

subsection \<open>The annual trend\<close>











subsection \<open>The keyword filter\<close>

lemma match_here_Lit: "match_here (map Lit k) s = prefix (lower k) (lower s)"
proof (induction k arbitrary: s)
  case Nil
  then show ?case by (simp add: lower_def)
next
  case (Cons c k)
  then show ?case by (cases s) (auto simp: lower_def)
qed

lemma search_Lit: "search (map Lit k) s = sublist (lower k) (lower s)"
proof (induction s)
  case Nil
  then show ?case by (cases k) (simp_all add: lower_def)
next
  case (Cons x s)
  have "lower (x # s) = lower_char x # lower s" by (simp add: lower_def)
  with Cons show ?case by (simp add: match_here_Lit sublist_Cons_right)
qed

lemma parse_pattern_plain: "\<forall>c\<in>set k. \<not> is_meta c \<Longrightarrow> parse_pattern k = Some (map Lit k)"
proof (induction k rule: parse_pattern.induct)
  case 1
  then show ?case by simp
next
  case (2 c)
  then show ?case by (auto simp: is_meta_def)
next
  case (3 c e es)
  then show ?case by (auto simp: is_meta_def)
qed

lemma keyword_filter_plain:
  assumes "k \<noteq> []" "\<forall>c\<in>set k. \<not> is_meta c" "has_col ''Article_title'' f"
  shows "keyword_filter k f
         = Inr (select (\<lambda>r. \<exists>t. Article_title r = Some t \<and> sublist (lower k) (lower t)) f)"
proof -
  have "title_contains (map Lit k) = (\<lambda>r. \<exists>t. Article_title r = Some t \<and> sublist (lower k) (lower t))"
    by (rule ext) (simp add: title_contains_def search_Lit split: option.splits)
  with assms show ?thesis by (simp add: keyword_filter_def parse_pattern_plain)
qed


lemma keyword_filter_titles:
  assumes "keyword_filter k f = Inr g" "k \<noteq> []" "has_col ''Article_title'' f" "r \<in> set (rows g)"
  shows "Article_title r \<noteq> None"
  using assms
  by (auto simp: keyword_filter_def title_contains_def split: option.splits)

text \<open>
  Claim C8. The claim reads the keyword as a plain text to be found in the title
  without regard to case. The code hands it to \<open>str.contains\<close>, which reads it as a
  regular expression. For a keyword without a special character the two agree
  (\<open>keyword_filter_plain\<close>), and a row without a title is never kept
  (\<open>keyword_filter_titles\<close>). With a special character they part: the keyword \<open>U.S.\<close>
  keeps the title \<open>Analyst guesses wrong\<close>, which does not contain it, since each dot
  stands for any character; and the keyword \<open>\d\<close> keeps only the title with a digit,
  while its upper-case form \<open>\D\<close> keeps every title. The statement evaluates all four
  programs.
\<close>

theorem keyword_is_read_as_pattern:
  "parse_pattern ''U.S.'' = Some [Lit CHR ''U'', AnyChar, Lit CHR ''S'', AnyChar]
   \<and> filtered headline_DF (keyword_request ''U.S.'') = Inr (headline_DF\<lparr>rows := [row_u, row_g]\<rparr>)
   \<and> filtered_app1 headline_DF (keyword_request ''U.S.'') = Inr (headline_DF\<lparr>rows := [row_u, row_g]\<rparr>)
   \<and> filtered_backend headline_DF (default_sidebar headline_DF\<lparr>text_input := ''U.S.''\<rparr>)
       = Inr (headline_DF\<lparr>rows := [row_u, row_g]\<rparr>)
   \<and> filtered_backnew headline_DF (default_sidebar headline_DF\<lparr>text_input := ''U.S.''\<rparr>)
       = Inr (headline_DF\<lparr>rows := [row_u, row_g]\<rparr>)
   \<and> Article_title row_g = Some ''Analyst guesses wrong''
   \<and> \<not> sublist (lower ''U.S.'') (lower ''Analyst guesses wrong'')
   \<and> filtered headline_DF (keyword_request [backslash, CHR ''d''])
       = Inr (headline_DF\<lparr>rows := [row_q]\<rparr>)
   \<and> upper [backslash, CHR ''d''] = [backslash, CHR ''D'']
   \<and> filtered headline_DF (keyword_request [backslash, CHR ''D''])
       = Inr (headline_DF\<lparr>rows := [row_u, row_g, row_q]\<rparr>)"
  by code_simp

subsection \<open>The loaded table is not written\<close>

lemma new_frame_sound:
  "grows st (snd (new_frame f st)) \<and> fst (new_frame f st) < fresh (snd (new_frame f st))
   \<and> frames (snd (new_frame f st)) (fst (new_frame f st)) = f"
  by (simp add: new_frame_def)

lemma year_st_sound:
  assumes "p < fresh st"
  shows "grows st (snd (year_st y p st)) \<and> fst (year_st y p st) < fresh (snd (year_st y p st))
       \<and> frames (snd (year_st y p st)) (fst (year_st y p st)) = year_filter y (frames st p)"
  using assms new_frame_sound [of st]
  by (auto simp: year_st_def year_filter_def getitem_st_def split: option.splits)

lemma symbol_st_sound:
  assumes "p < fresh st"
  shows "grows st (snd (symbol_st y p st)) \<and> fst (symbol_st y p st) < fresh (snd (symbol_st y p st))
       \<and> frames (snd (symbol_st y p st)) (fst (symbol_st y p st)) = symbol_filter y (frames st p)"
  using assms new_frame_sound [of st]
  by (auto simp: symbol_st_def symbol_filter_def getitem_st_def)

lemma date_sort_st_sound:
  assumes "p < fresh st"
  shows "grows st (snd (date_sort_st p st)) \<and> fst (date_sort_st p st) < fresh (snd (date_sort_st p st))
       \<and> frames (snd (date_sort_st p st)) (fst (date_sort_st p st)) = date_sort (frames st p)"
  using assms new_frame_sound [of st]
  by (auto simp: date_sort_st_def date_sort_def sort_values_st_def)

lemma copy_st_sound:
  "grows st (snd (copy_st p st)) \<and> fst (copy_st p st) < fresh (snd (copy_st p st))
       \<and> frames (snd (copy_st p st)) (fst (copy_st p st)) = copy (frames st p)"
  using new_frame_sound [of st] by (simp add: copy_st_def)

lemma getitem_st_sound:
  "grows st (snd (getitem_st k p st)) \<and> fst (getitem_st k p st) < fresh (snd (getitem_st k p st))
       \<and> frames (snd (getitem_st k p st)) (fst (getitem_st k p st)) = select k (frames st p)"
  using new_frame_sound [of st] by (simp add: getitem_st_def)

lemma table_st_sound:
  assumes "p < fresh st"
  shows "grows st (snd (table_st cs p st))
       \<and> frames (snd (table_st cs p st)) (fst (table_st cs p st))
           = head 200 (project (filter (\<lambda>c. has_col c (frames st p)) cs) (frames st p))"
  by (simp add: table_st_def Let_def getcols_st_def head_st_def new_frame_def)

lemma sentiment_st_sound:
  assumes "p < fresh st" "DF < fresh st" "sentiment_st DF lo hi p st = (r, st')"
  shows "grows st st'"
    and "case r of
           Inl e \<Rightarrow> sentiment_filter (frames st DF) lo hi (frames st p) = Inl e
         | Inr p' \<Rightarrow> p' < fresh st'
               \<and> sentiment_filter (frames st DF) lo hi (frames st p) = Inr (frames st' p')"
  using assms getitem_st_sound [of st]
  by (auto simp: sentiment_st_def sentiment_filter_def ok_st_def split: option.splits if_splits)

lemma keyword_st_sound:
  assumes "p < fresh st" "keyword_st k p st = (r, st')"
  shows "grows st st'"
    and "case r of
           Inl e \<Rightarrow> keyword_filter k (frames st p) = Inl e
         | Inr p' \<Rightarrow> p' < fresh st' \<and> keyword_filter k (frames st p) = Inr (frames st' p')"
  using assms getitem_st_sound [of st]
  by (auto simp: keyword_st_def keyword_filter_def ok_st_def split: option.splits if_splits)

lemma grows_trans: "grows a b \<Longrightarrow> grows b c \<Longrightarrow> grows a c"
  by auto

lemma finish_st_sound:
  assumes p4: "p4 < fresh s4"
  shows "grows s4 (snd (table_st cs (fst (date_sort_st p4 s4)) (snd (date_sort_st p4 s4))))
       \<and> frames (snd (table_st cs (fst (date_sort_st p4 s4)) (snd (date_sort_st p4 s4))))
            (fst (table_st cs (fst (date_sort_st p4 s4)) (snd (date_sort_st p4 s4))))
          = head 200 (project (filter (\<lambda>c. has_col c (date_sort (frames s4 p4))) cs)
                        (date_sort (frames s4 p4)))"
proof -
  let ?m5 = "date_sort_st p4 s4"
  note d = date_sort_st_sound [OF p4]
  from d have lt: "fst ?m5 < fresh (snd ?m5)" by blast
  note t = table_st_sound [OF lt, of cs]
  from d t have "grows s4 (snd (table_st cs (fst ?m5) (snd ?m5)))" by (meson grows_trans)
  moreover from d t have "frames (snd (table_st cs (fst ?m5) (snd ?m5))) (fst (table_st cs (fst ?m5) (snd ?m5)))
          = head 200 (project (filter (\<lambda>c. has_col c (date_sort (frames s4 p4))) cs)
                        (date_sort (frames s4 p4)))" by simp
  ultimately show ?thesis by blast
qed

lemma tail_st_sound:
  assumes p3: "p3 < fresh s3"
  shows "grows s3 (snd (then_st (keyword_st kw p3 s3)
              (\<lambda>p4 s4. let m5 = date_sort_st p4 s4 in ok_st (table_st cs (fst m5) (snd m5)))))
       \<and> map_sum id (frames (snd (then_st (keyword_st kw p3 s3)
              (\<lambda>p4 s4. let m5 = date_sort_st p4 s4 in ok_st (table_st cs (fst m5) (snd m5))))))
            (fst (then_st (keyword_st kw p3 s3)
              (\<lambda>p4 s4. let m5 = date_sort_st p4 s4 in ok_st (table_st cs (fst m5) (snd m5)))))
          = map_sum id (\<lambda>f. head 200 (project (filter (\<lambda>c. has_col c (date_sort f)) cs) (date_sort f)))
              (keyword_filter kw (frames s3 p3))"
proof -
  obtain r s4 where e: "keyword_st kw p3 s3 = (r, s4)" by (cases "keyword_st kw p3 s3")
  note g = keyword_st_sound(1) [OF p3 e] and k = keyword_st_sound(2) [OF p3 e]
  show ?thesis
  proof (cases r)
    case (Inl x)
    with k g show ?thesis by (simp add: e then_st_def)
  next
    case (Inr p4)
    with k have p4: "p4 < fresh s4" and kf: "keyword_filter kw (frames s3 p3) = Inr (frames s4 p4)"
      by simp_all
    note f = finish_st_sound [OF p4, of cs]
    from f g have "grows s3 (snd (table_st cs (fst (date_sort_st p4 s4)) (snd (date_sort_st p4 s4))))"
      by (meson grows_trans)
    with f kf Inr show ?thesis by (simp add: e then_st_def Let_def ok_st_def)
  qed
qed


lemma index_st_sound:
  assumes df: "DF < fresh st"
  shows "grows st (snd (index_st DF rq st))
       \<and> map_sum id (frames (snd (index_st DF rq st))) (fst (index_st DF rq st))
          = map_sum id (\<lambda>f. head 200 (project (filter (\<lambda>c. has_col c f) cols_to_show) f))
              (filtered (frames st DF) rq)"
proof -
  let ?y = "blank_is_all (args_get (arg_year rq) ''all'')"
  let ?s = "blank_is_all (args_get (arg_symbol rq) ''all'')"
  let ?kw = "strip (args_get (arg_keyword rq) [])"
  obtain lo hi where rng: "sent_range (frames st DF) rq = (lo, hi)"
    by (cases "sent_range (frames st DF) rq")
  obtain p0 s0 where m0: "copy_st DF st = (p0, s0)" by (cases "copy_st DF st")
  obtain p1 s1 where m1: "year_st ?y p0 s0 = (p1, s1)" by (cases "year_st ?y p0 s0")
  obtain p2 s2 where m2: "symbol_st ?s p1 s1 = (p2, s2)" by (cases "symbol_st ?s p1 s1")
  obtain r3 s3 where m3: "sentiment_st DF lo hi p2 s2 = (r3, s3)"
    by (cases "sentiment_st DF lo hi p2 s2")
  from copy_st_sound [of st DF] m0
  have g0: "grows st s0" and p0: "p0 < fresh s0" and f0: "frames s0 p0 = copy (frames st DF)"
    by simp_all
  from year_st_sound [OF p0, of ?y] m1
  have g1: "grows s0 s1" and p1: "p1 < fresh s1" and f1: "frames s1 p1 = year_filter ?y (frames s0 p0)"
    by simp_all
  from symbol_st_sound [OF p1, of ?s] m2
  have g2: "grows s1 s2" and p2: "p2 < fresh s2" and f2: "frames s2 p2 = symbol_filter ?s (frames s1 p1)"
    by simp_all
  have g02: "grows st s2" by (rule grows_trans [OF grows_trans [OF g0 g1] g2])
  with df have df2: "DF < fresh s2" and fd: "frames s2 DF = frames st DF" by auto
  note g3 = sentiment_st_sound(1) [OF p2 df2 m3] and k = sentiment_st_sound(2) [OF p2 df2 m3]
  have g03: "grows st s3" by (rule grows_trans [OF g02 g3])
  have unf: "index_st DF rq st
      = then_st (r3, s3) (\<lambda>p3 s3. then_st (keyword_st ?kw p3 s3)
              (\<lambda>p4 s4. let m5 = date_sort_st p4 s4
                        in ok_st (table_st cols_to_show (fst m5) (snd m5))))"
    by (simp add: index_st_def Let_def rng m0 m1 m2 m3)
  have pure: "filtered (frames st DF) rq
      = (case sentiment_filter (frames st DF) lo hi (frames s2 p2) of
           Inl e \<Rightarrow> Inl e
         | Inr f3 \<Rightarrow> (case keyword_filter ?kw f3 of Inl e \<Rightarrow> Inl e | Inr f4 \<Rightarrow> Inr (date_sort f4)))"
    by (simp add: filtered_def Let_def rng f0 f1 f2)
  show ?thesis
  proof (cases r3)
    case (Inl e)
    with k fd g03 show ?thesis by (simp add: unf pure then_st_def)
  next
    case (Inr p3)
    with k fd have p3: "p3 < fresh s3"
      and sf: "sentiment_filter (frames st DF) lo hi (frames s2 p2) = Inr (frames s3 p3)"
      by simp_all
    let ?k = "\<lambda>p3 s3. then_st (keyword_st ?kw p3 s3)
              (\<lambda>p4 s4. let m5 = date_sort_st p4 s4
                        in ok_st (table_st cols_to_show (fst m5) (snd m5)))"
    have unf': "index_st DF rq st = ?k p3 s3" unfolding unf Inr by (simp add: then_st_def)
    note t = tail_st_sound [OF p3, of ?kw cols_to_show]
    from t have gt: "grows s3 (snd (?k p3 s3))" by blast
    have "grows st (snd (?k p3 s3))" by (rule grows_trans [OF g03 gt])
    then have "grows st (snd (index_st DF rq st))" unfolding unf' .
    moreover from t have "map_sum id (frames (snd (?k p3 s3))) (fst (?k p3 s3))
          = map_sum id (\<lambda>f. head 200 (project (filter (\<lambda>c. has_col c (date_sort f)) cols_to_show) (date_sort f)))
              (keyword_filter ?kw (frames s3 p3))" by blast
    then have "map_sum id (frames (snd (index_st DF rq st))) (fst (index_st DF rq st))
          = map_sum id (\<lambda>f. head 200 (project (filter (\<lambda>c. has_col c f) cols_to_show) f))
              (filtered (frames st DF) rq)"
      unfolding unf' pure sf
      by (cases "keyword_filter ?kw (frames s3 p3)") simp_all
    ultimately show ?thesis by blast
  qed
qed


lemma getitem_st_eq:
  "getitem_st k p st = (p', st') \<Longrightarrow>
   grows st st' \<and> p' < fresh st' \<and> frames st' p' = select k (frames st p)"
  using getitem_st_sound [of st k p] by simp

lemma script_st_sound:
  assumes df: "df < fresh st"
  shows "grows st (snd (script_st df ui st))
       \<and> map_sum id (frames (snd (script_st df ui st))) (fst (script_st df ui st))
          = map_sum id table_dashboard (results_backnew (frames st df) ui)"
proof -
  let ?D = "frames st df"
  obtain p0 s0 where m0: "copy_st df st = (p0, s0)" by (cases "copy_st df st")
  from copy_st_sound [of st df] m0
  have g0: "grows st s0" and p0: "p0 < fresh s0" and f0: "frames s0 p0 = copy ?D"
    by simp_all
  let ?m1 = "case selected_year_of ?D ui of
               None \<Rightarrow> (p0, s0)
             | Some y \<Rightarrow> if has_col ''Year'' (frames s0 p0)
                         then getitem_st (\<lambda>r. Year r = Some y) p0 s0 else (p0, s0)"
  let ?f1 = "case selected_year_of ?D ui of
               None \<Rightarrow> copy ?D
             | Some y \<Rightarrow> if has_col ''Year'' (copy ?D)
                         then select (\<lambda>r. Year r = Some y) (copy ?D) else copy ?D"
  obtain p1 s1 where m1: "?m1 = (p1, s1)" by (cases ?m1)
  have s1: "grows s0 s1 \<and> p1 < fresh s1 \<and> frames s1 p1 = ?f1"
    using m1 p0 f0
    by (auto split: option.splits if_splits dest!: getitem_st_eq)
  let ?m2 = "case symbol_of ?D ui of
               None \<Rightarrow> (p1, s1)
             | Some s \<Rightarrow> getitem_st (\<lambda>r. Stock_symbol r = Some s) p1 s1"
  let ?f2 = "case symbol_of ?D ui of
               None \<Rightarrow> ?f1
             | Some s \<Rightarrow> select (\<lambda>r. Stock_symbol r = Some s) ?f1"
  obtain p2 s2 where m2: "?m2 = (p2, s2)" by (cases ?m2)
  have s2: "grows s1 s2 \<and> p2 < fresh s2 \<and> frames s2 p2 = ?f2"
    using m2 s1
    by (auto split: option.splits dest!: getitem_st_eq)
  let ?m3 = "case sentiment_range ?D ui of
               None \<Rightarrow> (p2, s2)
             | Some (lo, hi) \<Rightarrow> getitem_st (in_range lo hi) p2 s2"
  obtain p3 s3 where m3: "?m3 = (p3, s3)" by (cases ?m3)
  have s3: "grows s2 s3 \<and> p3 < fresh s3 \<and> frames s3 p3 = range_filter (sentiment_range ?D ui) ?f2"
    using m3 s2
    by (auto simp: range_filter_def split: option.splits dest!: getitem_st_eq)
  from s1 have g1: "grows s0 s1" by blast
  from s2 have g2: "grows s1 s2" by blast
  from s3 have g3: "grows s2 s3" by blast
  have g03: "grows st s3"
    by (rule grows_trans [OF grows_trans [OF grows_trans [OF g0 g1] g2] g3])
  let ?k = "then_st (keyword_st (text_input ui) p3 s3)
              (\<lambda>p4 s4. let m5 = date_sort_st p4 s4
                        in ok_st (table_st cols_dashboard (fst m5) (snd m5)))"
  have unf: "script_st df ui st = ?k"
    by (simp add: script_st_def Let_def m0 m1 m2 m3 cong: option.case_cong if_cong)
  have pure: "filtered_backnew ?D ui = keyword_filter (text_input ui) (frames s3 p3)"
    using s3 by (simp add: filtered_backnew_def Let_def)
  from s3 have p3: "p3 < fresh s3" by blast
  note t = tail_st_sound [OF p3, of "text_input ui" cols_dashboard]
  from t have gt: "grows s3 (snd ?k)" by blast
  have "grows st (snd ?k)" by (rule grows_trans [OF g03 gt])
  then have 1: "grows st (snd (script_st df ui st))" unfolding unf .
  from t have "map_sum id (frames (snd ?k)) (fst ?k)
          = map_sum id (\<lambda>f. head 200 (project (filter (\<lambda>c. has_col c (date_sort f)) cols_dashboard) (date_sort f)))
              (keyword_filter (text_input ui) (frames s3 p3))" by blast
  then have 2: "map_sum id (frames (snd (script_st df ui st))) (fst (script_st df ui st))
          = map_sum id table_dashboard (results_backnew ?D ui)"
    unfolding unf results_backnew_def pure
    by (cases "keyword_filter (text_input ui) (frames s3 p3)") (simp_all add: table_dashboard_def)
  from 1 2 show ?thesis by blast
qed


text \<open>
  Claim C9. Running the filter pipeline leaves the loaded table as it was. In the
  store model every frame that existed before the request, the table at \<open>DF\<close> among
  them, has the same columns and rows afterwards, whatever the request and whether or
  not the pipeline raises: the pipeline only allocates. The frame it ends with is the
  one the functional model computes, so the rows shown are those of \<open>index\<close>. This is
  proved for the handler of \<open>flask/app.py\<close> and for the script \<open>backnew.py\<close>.
\<close>

theorem pipeline_leaves_table_unchanged:
  assumes "DF < fresh st"
  shows "frames (snd (index_st DF rq st)) DF = frames st DF
       \<and> (\<forall>q<fresh st. frames (snd (index_st DF rq st)) q = frames st q)
       \<and> map_sum id (frames (snd (index_st DF rq st))) (fst (index_st DF rq st))
           = map_sum id (\<lambda>f. head 200 (project (filter (\<lambda>c. has_col c f) cols_to_show) f))
               (filtered (frames st DF) rq)
       \<and> (\<forall>resp. index fo (frames st DF) rq = Inr resp \<longrightarrow>
            map_sum id (\<lambda>p. rows (frames (snd (index_st DF rq st)) p)) (fst (index_st DF rq st))
              = Inr (table_rows resp))
       \<and> frames (snd (script_st DF ui st)) DF = frames st DF
       \<and> (\<forall>q<fresh st. frames (snd (script_st DF ui st)) q = frames st q)
       \<and> map_sum id (frames (snd (script_st DF ui st))) (fst (script_st DF ui st))
           = map_sum id table_dashboard (results_backnew (frames st DF) ui)"
proof -
  note i = index_st_sound [OF assms, of rq]
  note s = script_st_sound [OF assms, of ui]
  have 4: "\<forall>resp. index fo (frames st DF) rq = Inr resp \<longrightarrow>
            map_sum id (\<lambda>p. rows (frames (snd (index_st DF rq st)) p)) (fst (index_st DF rq st))
              = Inr (table_rows resp)"
  proof (intro allI impI)
    fix resp assume r: "index fo (frames st DF) rq = Inr resp"
    from index_table_rows [OF r] obtain f where
      f: "filtered (frames st DF) rq = Inr f" and t: "table_rows resp = take 200 (rows f)" by blast
    from i f have "map_sum id (frames (snd (index_st DF rq st))) (fst (index_st DF rq st))
        = Inr (head 200 (project (filter (\<lambda>c. has_col c f) cols_to_show) f))" by simp
    then show "map_sum id (\<lambda>p. rows (frames (snd (index_st DF rq st)) p)) (fst (index_st DF rq st))
              = Inr (table_rows resp)"
      using t by (cases "fst (index_st DF rq st)") (auto simp: head_def project_def)
  qed
  from i s assms 4 show ?thesis by simp
qed

theorem pipeline_leaves_table_unchanged_witness:
  "(0::nat) < fresh sample_store \<and> frames sample_store 0 = sample_DF
   \<and> frames (snd (index_st 0 narrow_request sample_store)) 0 = sample_DF
   \<and> map_sum id (\<lambda>p. rows (frames (snd (index_st 0 narrow_request sample_store)) p))
        (fst (index_st 0 narrow_request sample_store)) = Inr [row_a]"
proof -
  have h: "(0::nat) < fresh sample_store" by (simp add: sample_store_def)
  have d: "frames sample_store 0 = sample_DF" by (simp add: sample_store_def)
  have e: "map_sum id (\<lambda>f. rows (head 200 (project (filter (\<lambda>c. has_col c f) cols_to_show) f)))
             (filtered sample_DF narrow_request) = Inr [row_a]" by code_simp
  note t = pipeline_leaves_table_unchanged [OF h, of narrow_request]
  from t d have 1: "frames (snd (index_st 0 narrow_request sample_store)) 0 = sample_DF" by simp
  from t have "map_sum id (frames (snd (index_st 0 narrow_request sample_store)))
                 (fst (index_st 0 narrow_request sample_store))
           = map_sum id (\<lambda>f. head 200 (project (filter (\<lambda>c. has_col c f) cols_to_show) f))
               (filtered (frames sample_store 0) narrow_request)" by blast
  then have "map_sum id rows (map_sum id (frames (snd (index_st 0 narrow_request sample_store)))
                 (fst (index_st 0 narrow_request sample_store)))
           = map_sum id rows (map_sum id (\<lambda>f. head 200 (project (filter (\<lambda>c. has_col c f) cols_to_show) f))
               (filtered sample_DF narrow_request))" unfolding d by simp
  then have 2: "map_sum id (\<lambda>p. rows (frames (snd (index_st 0 narrow_request sample_store)) p))
        (fst (index_st 0 narrow_request sample_store)) = Inr [row_a]"
    using e by (simp add: sum.map_comp comp_def id_def)
  from h d 1 2 show ?thesis by simp
qed

end
